theory Spec2Isabelle
  imports Main
begin

section \<open>Python values\<close>

text \<open>
  Form fields and nullable columns are \<open>None\<close> or a value. Python's truth test takes
  \<open>None\<close> and the empty string as false, and \<open>x or y\<close> is \<open>x\<close> when \<open>x\<close> is true and
  \<open>y\<close> otherwise. Characters are the 8-bit characters of \<open>string\<close>, read as Latin-1 code
  points; \<open>isspace\<close> and \<open>lower\<close> are Python's \<open>str.isspace\<close> and \<open>str.lower\<close> on that range.
\<close>

type_synonym timestamp = nat

fun truthy :: "string option \<Rightarrow> bool" where
  "truthy None = False"
| "truthy (Some s) = (s \<noteq> [])"

fun por :: "string option \<Rightarrow> string option \<Rightarrow> string option" where
  "por None y = y"
| "por (Some s) y = (if s \<noteq> [] then Some s else y)"

fun pybool :: "bool option \<Rightarrow> bool" where
  "pybool None = False"
| "pybool (Some b) = b"

text \<open>The string that \<open>x or ''\<close> is, for \<open>x\<close> a string or \<open>None\<close>.\<close>

fun text_of :: "string option \<Rightarrow> string" where
  "text_of None = []"
| "text_of (Some s) = s"

definition isspace :: "char \<Rightarrow> bool" where
  "isspace c = (of_char c \<in> {9, 10, 11, 12, 13, 28, 29, 30, 31, 32, 133, 160 :: nat})"

definition strip :: "string \<Rightarrow> string" where
  "strip s = rev (dropWhile isspace (rev (dropWhile isspace s)))"

definition lower_char :: "char \<Rightarrow> char" where
  "lower_char c =
     (let n = of_char c :: nat
      in if (65 \<le> n \<and> n \<le> 90) \<or> (192 \<le> n \<and> n \<le> 222 \<and> n \<noteq> 215)
         then char_of (n + 32) else c)"

definition lower :: "string \<Rightarrow> string" where
  "lower s = map lower_char s"

section \<open>The data model (models.py)\<close>

text \<open>
  One record per model class, one field per column, prefixed by the class since field
  names are global. A column without \<open>nullable=False\<close> is an option. Primary keys are
  never null.
\<close>

record query =
  q_id :: int
  q_name :: string
  q_email :: string
  q_message :: string
  q_category :: "string option"
  q_status :: "string option"
  q_response :: "string option"
  q_admin_response :: "string option"
  q_admin_reply_text :: "string option"
  q_admin_reply_at :: "timestamp option"
  q_admin_reply_seen :: "bool option"
  q_student_id :: "int option"
  q_created_at :: "timestamp option"

record student =
  s_id :: int
  s_student_id :: string
  s_name :: string
  s_email :: string
  s_password :: string
  s_is_blocked :: "bool option"

record blocked_email =
  be_id :: int
  be_email :: string
  be_is_active :: "bool option"
  be_created_at :: "timestamp option"

record faq =
  faq_id :: int
  faq_question :: string
  faq_answer :: "string option"
  faq_frequency :: "int option"
  faq_category :: "string option"
  faq_from_query_id :: "int option"
  faq_is_active :: "bool option"
  faq_created_at :: "timestamp option"

text \<open>The tables, each in rowid order (the order \<open>.first()\<close> and \<open>.all()\<close> read them in).\<close>

record tables =
  queries :: "query list"
  students :: "student list"
  blocked_emails :: "blocked_email list"
  faqs :: "faq list"

section \<open>The session: unit of work, log and outbox\<close>

text \<open>
  \<open>db.session\<close> holds a working copy of the tables; \<open>commit\<close> makes it the stored state
  and \<open>rollback\<close> discards it. A request starts from the stored state. The trace records,
  in order, every commit (with the state it stored), every rollback, every mail handed to
  \<open>mail.send\<close> and every error written to the log.
\<close>

datatype event =
    Commit tables
  | Rollback
  | MailSend string
  | LogError string

record world =
  committed :: tables
  working :: tables
  trace :: "event list"

definition begin_request :: "tables \<Rightarrow> world" where
  "begin_request t = \<lparr>committed = t, working = t, trace = []\<rparr>"

definition commit :: "world \<Rightarrow> world" where
  "commit w = w\<lparr>committed := working w, trace := trace w @ [Commit (working w)]\<rparr>"

definition rollback :: "world \<Rightarrow> world" where
  "rollback w = w\<lparr>working := committed w, trace := trace w @ [Rollback]\<rparr>"

definition emit :: "event \<Rightarrow> world \<Rightarrow> world" where
  "emit e w = w\<lparr>trace := trace w @ [e]\<rparr>"

text \<open>
  A mapped object is the first row with its key; assigning to its attributes changes that
  row of the working copy.
\<close>

fun update_first :: "('a \<Rightarrow> bool) \<Rightarrow> ('a \<Rightarrow> 'a) \<Rightarrow> 'a list \<Rightarrow> 'a list" where
  "update_first P g [] = []"
| "update_first P g (x # xs) = (if P x then g x # xs else x # update_first P g xs)"

text \<open>SQLite gives a new row the largest rowid plus one.\<close>

definition next_id :: "int list \<Rightarrow> int" where
  "next_id ids = fold max ids 0 + 1"

text \<open>
  The environment of a request: whether \<open>MAIL_USERNAME\<close> and \<open>MAIL_PASSWORD\<close> are both
  configured, whether \<open>mail.send\<close> raises, and whether a statement of the FAQ block of
  \<open>submit_query\<close> raises, at the lookup or at its commit. Every other statement on the
  store returns; the handlers around the blocked-sender checks, the reply metadata and the
  seen flags catch storage errors only and are not reached here.
\<close>

datatype faq_fault = FaqOk | FaqLookupRaises | FaqCommitRaises

record env =
  mail_configured :: bool
  mail_raises :: bool
  faq_fault :: faq_fault

section \<open>update\_status (app.py, lines 1021 to 1073)\<close>

datatype update_result = QueryNotFound | QueryUpdated

text \<open>Lines 1031 to 1034: the three assignments before the first commit.\<close>

definition set_response :: "string option \<Rightarrow> string option \<Rightarrow> query \<Rightarrow> query" where
  "set_response status response_text q =
     q\<lparr>q_status := por status (q_status q),
       q_response := por response_text (q_response q),
       q_admin_response := por response_text (q_admin_response q)\<rparr>"

text \<open>Lines 1066 to 1068: the reply metadata of a student's query.\<close>

definition set_reply :: "timestamp \<Rightarrow> string option \<Rightarrow> query \<Rightarrow> query" where
  "set_reply now response_text q =
     q\<lparr>q_admin_reply_text :=
         Some (strip (text_of (por (por (q_admin_response q) response_text) (Some [])))),
       q_admin_reply_at := Some now,
       q_admin_reply_seen := Some False\<rparr>"

definition change_query :: "int \<Rightarrow> (query \<Rightarrow> query) \<Rightarrow> world \<Rightarrow> world" where
  "change_query qid g w =
     w\<lparr>working := (working w)\<lparr>queries := update_first (\<lambda>q. q_id q = qid) g (queries (working w))\<rparr>\<rparr>"

text \<open>Lines 1037 to 1071, on the object \<open>q\<close> as it is after the first commit.\<close>

definition notify :: "env \<Rightarrow> timestamp \<Rightarrow> string option \<Rightarrow> query \<Rightarrow> world \<Rightarrow> world" where
  "notify e now response_text q w =
     (case q_student_id q of
        None \<Rightarrow>
          if q_email q \<noteq> [] \<and> mail_configured e
          then (if mail_raises e
                then emit (LogError ''Status update email failed'') (emit (MailSend (q_email q)) w)
                else emit (MailSend (q_email q)) w)
          else w
      | Some sid \<Rightarrow> commit (change_query (q_id q) (set_reply now response_text) w))"

text \<open>
  The form gives \<open>query_id\<close>, \<open>status\<close> and \<open>response\<close>, each absent or a string; the key is
  taken as the integer the store reads it as, \<open>None\<close> when there is none.
\<close>

definition update_status ::
  "env \<Rightarrow> timestamp \<Rightarrow> int option \<Rightarrow> string option \<Rightarrow> string option \<Rightarrow> tables
     \<Rightarrow> update_result \<times> world" where
  "update_status e now qid status response_text t =
     (case qid of
        None \<Rightarrow> (QueryNotFound, begin_request t)
      | Some k \<Rightarrow>
          (case find (\<lambda>q. q_id q = k) (queries t) of
             None \<Rightarrow> (QueryNotFound, begin_request t)
           | Some q0 \<Rightarrow>
               let w1 = commit (change_query k (set_response status response_text) (begin_request t));
                   q = set_response status response_text q0
               in (QueryUpdated, notify e now response_text q w1)))"

text \<open>The stored row of a query after a request.\<close>

definition stored_query :: "int \<Rightarrow> world \<Rightarrow> query option" where
  "stored_query k w = find (\<lambda>q. q_id q = k) (queries (committed w))"

definition mails :: "world \<Rightarrow> string list" where
  "mails w = concat (map (\<lambda>ev. case ev of MailSend r \<Rightarrow> [r] | _ \<Rightarrow> []) (trace w))"

text \<open>
  The row that one call leaves for a query: lines 1031 to 1034, then lines 1066 to 1068
  when the query has a student.
\<close>

definition stored_row :: "timestamp \<Rightarrow> string option \<Rightarrow> string option \<Rightarrow> query \<Rightarrow> query" where
  "stored_row now status response_text q0 =
     (case q_student_id q0 of
        None \<Rightarrow> set_response status response_text q0
      | Some sid \<Rightarrow> set_reply now response_text (set_response status response_text q0))"

section \<open>submit\_query (app.py, lines 465 to 540)\<close>

record submit_form =
  form_name :: "string option"
  form_guest_name :: "string option"
  form_email :: "string option"
  form_guest_email :: "string option"
  form_category :: "string option"
  form_message :: "string option"
  form_guest_query :: "string option"

text \<open>
  The cookie session. Its \<open>student_id\<close> is written at line 677 only, as the numeric
  \<open>student.id\<close>, so \<open>int(student_id)\<close> at lines 481 and 758 returns it and the lookup of a
  textual id in the handler is not reached.
\<close>

record session =
  student_logged_in :: bool
  sess_student_id :: "int option"

datatype submit_result = AllFieldsRequired | AccountBlocked | EmailBlocked | Submitted

text \<open>Lines 492 to 506. \<open>if student_fk\<close> is false for \<open>None\<close> and for 0.\<close>

definition guest_check :: "string \<Rightarrow> tables \<Rightarrow> submit_result option" where
  "guest_check email t =
     (if email \<noteq> [] \<and>
         find (\<lambda>b. be_email b = lower (strip email) \<and> be_is_active b = Some True)
           (blocked_emails t) \<noteq> None
      then Some EmailBlocked else None)"

definition student_check :: "int \<Rightarrow> tables \<Rightarrow> submit_result option" where
  "student_check n t =
     (case find (\<lambda>s. s_id s = n) (students t) of
        None \<Rightarrow> None
      | Some s_obj \<Rightarrow> if pybool (s_is_blocked s_obj) then Some AccountBlocked else None)"

definition sender_check :: "int option \<Rightarrow> string \<Rightarrow> tables \<Rightarrow> submit_result option" where
  "sender_check student_fk email t =
     (case student_fk of
        None \<Rightarrow> guest_check email t
      | Some n \<Rightarrow> if n \<noteq> 0 then student_check n t else guest_check email t)"

text \<open>Line 508, with the column defaults of models.py.\<close>

definition new_query ::
  "timestamp \<Rightarrow> int \<Rightarrow> string \<Rightarrow> string \<Rightarrow> string option \<Rightarrow> string \<Rightarrow> int option \<Rightarrow> query" where
  "new_query now k name email category message student_fk =
     \<lparr>q_id = k, q_name = strip name, q_email = strip email, q_message = strip message,
      q_category = (if truthy category then Some (strip (text_of category)) else None),
      q_status = Some ''Pending'', q_response = None, q_admin_response = None,
      q_admin_reply_text = None, q_admin_reply_at = None, q_admin_reply_seen = Some False,
      q_student_id = student_fk, q_created_at = Some now\<rparr>"

text \<open>Lines 522 to 528.\<close>

definition new_faq :: "timestamp \<Rightarrow> int \<Rightarrow> string \<Rightarrow> string option \<Rightarrow> faq" where
  "new_faq now k message category =
     \<lparr>faq_id = k, faq_question = strip message, faq_answer = None, faq_frequency = Some 1,
      faq_category = (if truthy category then Some (strip (text_of category)) else None),
      faq_from_query_id = None, faq_is_active = Some True, faq_created_at = Some now\<rparr>"

definition faq_failed :: "world \<Rightarrow> world" where
  "faq_failed w = rollback (emit (LogError ''Error updating FAQ'') w)"

definition faq_commit :: "env \<Rightarrow> world \<Rightarrow> world" where
  "faq_commit e w = (if faq_fault e = FaqCommitRaises then faq_failed w else commit w)"

definition active_faq :: "string \<Rightarrow> faq \<Rightarrow> bool" where
  "active_faq question f = (faq_question f = question \<and> faq_is_active f = Some True)"

text \<open>
  Lines 513 to 533. \<open>existing_faq.frequency += 1\<close> on a null frequency raises TypeError,
  which the handler catches like any other exception of the block.
\<close>

definition faq_update :: "env \<Rightarrow> timestamp \<Rightarrow> string \<Rightarrow> string option \<Rightarrow> world \<Rightarrow> world" where
  "faq_update e now message category w =
     (if faq_fault e = FaqLookupRaises then faq_failed w
      else case find (active_faq (strip message)) (faqs (working w)) of
        Some existing_faq \<Rightarrow>
          (case faq_frequency existing_faq of
             None \<Rightarrow> faq_failed w
           | Some n \<Rightarrow>
               faq_commit e
                 (w\<lparr>working := (working w)\<lparr>faqs :=
                      update_first (active_faq (strip message))
                        (\<lambda>f. f\<lparr>faq_frequency := Some (n + 1)\<rparr>) (faqs (working w))\<rparr>\<rparr>))
      | None \<Rightarrow>
          faq_commit e
            (w\<lparr>working := (working w)\<lparr>faqs :=
                 faqs (working w) @
                   [new_faq now (next_id (map faq_id (faqs (working w)))) message category]\<rparr>\<rparr>))"

text \<open>Lines 508 to 510: the new row is added and committed.\<close>

definition insert_query :: "query \<Rightarrow> world \<Rightarrow> world" where
  "insert_query q w =
     commit (w\<lparr>working := (working w)\<lparr>queries := queries (working w) @ [q]\<rparr>\<rparr>)"

definition submit_query ::
  "env \<Rightarrow> timestamp \<Rightarrow> session \<Rightarrow> submit_form \<Rightarrow> tables \<Rightarrow> submit_result \<times> world" where
  "submit_query e now sess form t =
     (let name = por (form_name form) (form_guest_name form);
          email = por (form_email form) (form_guest_email form);
          category = por (form_category form) (Some ''other'');
          message = por (form_message form) (form_guest_query form);
          student_fk = sess_student_id sess
      in if \<not> truthy name \<or> \<not> truthy email \<or> \<not> truthy message
         then (AllFieldsRequired, begin_request t)
         else case sender_check student_fk (text_of email) t of
           Some rejected \<Rightarrow> (rejected, begin_request t)
         | None \<Rightarrow>
             let q = new_query now (next_id (map q_id (queries t))) (text_of name) (text_of email)
                       category (text_of message) student_fk
             in (Submitted,
                 faq_update e now (text_of message) category (insert_query q (begin_request t))))"

text \<open>The message and category a form submits (lines 470 and 471).\<close>

definition submitted_message :: "submit_form \<Rightarrow> string" where
  "submitted_message form = strip (text_of (por (form_message form) (form_guest_query form)))"

definition submitted_category :: "submit_form \<Rightarrow> string option" where
  "submitted_category form =
     (let category = por (form_category form) (Some ''other'')
      in if truthy category then Some (strip (text_of category)) else None)"

text \<open>The sender's address that a form submits (line 468).\<close>

definition submitted_email :: "submit_form \<Rightarrow> string" where
  "submitted_email form = text_of (por (form_email form) (form_guest_email form))"

text \<open>Line 474 lets the request through.\<close>

definition form_complete :: "submit_form \<Rightarrow> bool" where
  "form_complete form =
     (truthy (por (form_name form) (form_guest_name form)) \<and>
      truthy (por (form_email form) (form_guest_email form)) \<and>
      truthy (por (form_message form) (form_guest_query form)))"

text \<open>
  The row that line 508 builds from the request, the tables once lines 509 and 510 have
  stored it, and the row of lines 522 to 528.
\<close>

definition submitted_row :: "timestamp \<Rightarrow> session \<Rightarrow> submit_form \<Rightarrow> tables \<Rightarrow> query" where
  "submitted_row now sess form t =
     new_query now (next_id (map q_id (queries t)))
       (text_of (por (form_name form) (form_guest_name form)))
       (text_of (por (form_email form) (form_guest_email form)))
       (por (form_category form) (Some ''other''))
       (text_of (por (form_message form) (form_guest_query form)))
       (sess_student_id sess)"

definition with_query :: "timestamp \<Rightarrow> session \<Rightarrow> submit_form \<Rightarrow> tables \<Rightarrow> tables" where
  "with_query now sess form t = t\<lparr>queries := queries t @ [submitted_row now sess form t]\<rparr>"

definition submitted_faq :: "timestamp \<Rightarrow> submit_form \<Rightarrow> tables \<Rightarrow> faq" where
  "submitted_faq now form t =
     new_faq now (next_id (map faq_id (faqs t)))
       (text_of (por (form_message form) (form_guest_query form)))
       (por (form_category form) (Some ''other''))"

section \<open>student\_dashboard (app.py, lines 748 to 780)\<close>

datatype dashboard_result = LoginRequired | DashboardShown

text \<open>Lines 775 and 776, for one row of the student's queries.\<close>

definition mark_seen :: "query \<Rightarrow> query" where
  "mark_seen q =
     (if truthy (q_admin_reply_text q) \<and> \<not> pybool (q_admin_reply_seen q)
      then q\<lparr>q_admin_reply_seen := Some True\<rparr> else q)"

definition student_dashboard :: "session \<Rightarrow> tables \<Rightarrow> dashboard_result \<times> world" where
  "student_dashboard sess t =
     (if \<not> student_logged_in sess then (LoginRequired, begin_request t)
      else case sess_student_id sess of
        None \<Rightarrow> (DashboardShown, commit (begin_request t))
      | Some sid_int \<Rightarrow>
          (DashboardShown,
           commit ((begin_request t)\<lparr>working := t\<lparr>queries :=
             map (\<lambda>q. if q_student_id q = Some sid_int then mark_seen q else q) (queries t)\<rparr>\<rparr>)))"

section \<open>toggle\_faq (app.py, lines 1212 to 1218)\<close>

text \<open>\<open>get_or_404\<close> ends the request when there is no such row: the result is \<open>None\<close>.\<close>

definition toggle_faq :: "int \<Rightarrow> tables \<Rightarrow> world option" where
  "toggle_faq fid t =
     (case find (\<lambda>f. faq_id f = fid) (faqs t) of
        None \<Rightarrow> None
      | Some f0 \<Rightarrow>
          Some (commit ((begin_request t)\<lparr>working := t\<lparr>faqs :=
            update_first (\<lambda>f. faq_id f = fid)
              (\<lambda>f. f\<lparr>faq_is_active := Some (\<not> pybool (faq_is_active f))\<rparr>) (faqs t)\<rparr>\<rparr>)))"

section \<open>toggle\_block\_guest (app.py, lines 1176 to 1191)\<close>

text \<open>The only writer of \<open>blocked_emails\<close>: it stores the address stripped and in lower case.\<close>

definition toggle_block_guest :: "timestamp \<Rightarrow> string option \<Rightarrow> tables \<Rightarrow> world" where
  "toggle_block_guest now form_email_field t =
     (let email = lower (strip (text_of (por form_email_field (Some []))))
      in if email = [] then begin_request t
         else case find (\<lambda>b. be_email b = email) (blocked_emails t) of
           None \<Rightarrow>
             commit ((begin_request t)\<lparr>working := t\<lparr>blocked_emails := blocked_emails t @
               [\<lparr>be_id = next_id (map be_id (blocked_emails t)), be_email = email,
                 be_is_active = Some True, be_created_at = Some now\<rparr>]\<rparr>\<rparr>)
         | Some b0 \<Rightarrow>
             commit ((begin_request t)\<lparr>working := t\<lparr>blocked_emails :=
               update_first (\<lambda>b. be_email b = email)
                 (\<lambda>b. b\<lparr>be_is_active := Some (\<not> pybool (be_is_active b))\<rparr>)
                 (blocked_emails t)\<rparr>\<rparr>))"

section \<open>migrate\_additive\_schema (app.py, lines 338 to 384)\<close>

text \<open>
  The live schema gives each existing table its column names, in order, as
  \<open>PRAGMA table_info\<close> returns them; of a table that does not exist it returns nothing.
  SQLite resolves the names of tables and columns without regard to the case of the
  letters A to Z: a table is entered here under its name in lower case, which is how the
  statements write it, and a column counts as present for SQLite when a column of the
  table has the same name after folding (\<open>has_column\<close>), while the \<open>in\<close> of Python compares
  the names as they are. The statements run on a SQLite connection, where a schema
  statement that returns has taken effect; the code never rolls one back. A statement
  raises when the environment makes it fail (the parameter \<open>fails\<close>), when its table does
  not exist, or when SQLite finds the column already there (duplicate column name).
  Opening the connection, reading the column list, the commit of the session and closing
  the connection are taken to return.
\<close>

type_synonym schema = "string \<rightharpoonup> string list"

datatype stmt = AddColumn string string | SetCategoryOther | CreateAll

definition table_info :: "schema \<Rightarrow> string \<Rightarrow> string list" where
  "table_info s t = (case s t of None \<Rightarrow> [] | Some cols \<Rightarrow> cols)"

definition sql_fold_char :: "char \<Rightarrow> char" where
  "sql_fold_char c =
     (let n = of_char c :: nat in if 65 \<le> n \<and> n \<le> 90 then char_of (n + 32) else c)"

definition sql_fold :: "string \<Rightarrow> string" where
  "sql_fold name = map sql_fold_char name"

definition has_column :: "string list \<Rightarrow> string \<Rightarrow> bool" where
  "has_column cols c = (sql_fold c \<in> set (map sql_fold cols))"

text \<open>
  The tables and columns that models.py declares. \<open>db.create_all()\<close> creates each declared
  table that does not exist, with all its columns, and leaves an existing table as it is.
\<close>

definition declared :: "(string \<times> string list) list" where
  "declared =
     [(''queries'', [''id'', ''name'', ''email'', ''message'', ''category'', ''status'', ''response'',
         ''admin_response'', ''admin_reply_text'', ''admin_reply_at'', ''admin_reply_seen'',
         ''student_id'', ''created_at'']),
      (''admins'', [''id'', ''username'', ''password_hash'', ''name'', ''full_name'', ''email'',
         ''is_active'', ''is_blocked'', ''created_at'']),
      (''students'', [''id'', ''student_id'', ''name'', ''email'', ''password'', ''is_blocked'']),
      (''blocked_emails'', [''id'', ''email'', ''is_active'', ''created_at'']),
      (''faqs'', [''id'', ''question'', ''answer'', ''frequency'', ''category'', ''from_query_id'',
         ''is_active'', ''created_at''])]"

fun create_tables_of :: "(string \<times> string list) list \<Rightarrow> schema \<Rightarrow> schema" where
  "create_tables_of [] s = s"
| "create_tables_of ((t, cols) # ds) s =
     create_tables_of ds (if s t = None then s(t \<mapsto> cols) else s)"

definition create_all :: "schema \<Rightarrow> schema" where
  "create_all s = create_tables_of declared s"

definition exec_stmt :: "(stmt \<Rightarrow> bool) \<Rightarrow> stmt \<Rightarrow> schema \<Rightarrow> schema option" where
  "exec_stmt fails st s =
     (if fails st then None
      else case st of
        AddColumn t c \<Rightarrow>
          (case s t of
             None \<Rightarrow> None
           | Some cols \<Rightarrow> if has_column cols c then None else Some (s(t \<mapsto> cols @ [c])))
      | SetCategoryOther \<Rightarrow>
          (case s ''queries'' of
             None \<Rightarrow> None
           | Some cols \<Rightarrow> if has_column cols ''category'' then Some s else None)
      | CreateAll \<Rightarrow> Some (create_all s))"

text \<open>
  The body of one \<open>try\<close>: the statements in order; the first that raises ends the block.
  The result says whether the handler ran.
\<close>

fun exec_block :: "(stmt \<Rightarrow> bool) \<Rightarrow> stmt list \<Rightarrow> schema \<Rightarrow> schema \<times> bool" where
  "exec_block fails [] s = (s, False)"
| "exec_block fails (st # sts) s =
     (case exec_stmt fails st s of
        None \<Rightarrow> (s, True)
      | Some s' \<Rightarrow> exec_block fails sts s')"

definition try_block ::
  "(stmt \<Rightarrow> bool) \<Rightarrow> string \<Rightarrow> stmt list \<Rightarrow> schema \<times> string list \<Rightarrow> schema \<times> string list" where
  "try_block fails message sts sl =
     (case exec_block fails sts (fst sl) of
        (s', raised) \<Rightarrow> (s', if raised then snd sl @ [message] else snd sl))"

text \<open>One \<open>if c not in cols\<close> of a block, with \<open>cols\<close> as read at the start of the block.\<close>

definition add_missing :: "string \<Rightarrow> string list \<Rightarrow> string \<Rightarrow> stmt list" where
  "add_missing t cols c = (if c \<notin> set cols then [AddColumn t c] else [])"

definition queries_block :: "string list \<Rightarrow> stmt list" where
  "queries_block cols =
     add_missing ''queries'' cols ''admin_reply_text'' @
     add_missing ''queries'' cols ''admin_reply_at'' @
     add_missing ''queries'' cols ''admin_reply_seen'' @
     (if ''category'' \<notin> set cols then [AddColumn ''queries'' ''category'', SetCategoryOther] else [])"

definition students_block :: "string list \<Rightarrow> stmt list" where
  "students_block cols = add_missing ''students'' cols ''is_blocked''"

definition admins_block :: "string list \<Rightarrow> stmt list" where
  "admins_block cols =
     add_missing ''admins'' cols ''name'' @
     add_missing ''admins'' cols ''email'' @
     add_missing ''admins'' cols ''is_active'' @
     add_missing ''admins'' cols ''is_blocked'' @
     add_missing ''admins'' cols ''created_at''"

definition migrate_additive_schema :: "(stmt \<Rightarrow> bool) \<Rightarrow> schema \<Rightarrow> schema \<times> string list" where
  "migrate_additive_schema fails s =
     (let r1 = try_block fails ''Migration error for queries columns''
                 (queries_block (table_info s ''queries'')) (s, []);
          r2 = try_block fails ''Migration error for students.is_blocked''
                 (students_block (table_info (fst r1) ''students'')) r1;
          r3 = try_block fails ''Migration error for admins columns''
                 (admins_block (table_info (fst r2) ''admins'')) r2
      in try_block fails ''Error ensuring new tables exist'' [CreateAll] r3)"


text \<open>The columns that each block checks, in the order of its statements.\<close>

definition queries_columns :: "string list" where
  "queries_columns = [''admin_reply_text'', ''admin_reply_at'', ''admin_reply_seen'', ''category'']"

definition students_columns :: "string list" where
  "students_columns = [''is_blocked'']"

definition admins_columns :: "string list" where
  "admins_columns = [''name'', ''email'', ''is_active'', ''is_blocked'', ''created_at'']"

text \<open>The three blocks: the table, the columns checked and the message of the handler.\<close>

definition entity_blocks :: "(string \<times> string list \<times> string) list" where
  "entity_blocks =
     [(''queries'', queries_columns, ''Migration error for queries columns''),
      (''students'', students_columns, ''Migration error for students.is_blocked''),
      (''admins'', admins_columns, ''Migration error for admins columns'')]"

text \<open>
  The alteration that adds \<open>c\<close> to a table read with the columns \<open>cols\<close> returns when the
  environment does not make it fail and SQLite finds no such column.
\<close>

definition addable :: "(stmt \<Rightarrow> bool) \<Rightarrow> string \<Rightarrow> string list \<Rightarrow> string \<Rightarrow> bool" where
  "addable fails t cols c = (\<not> fails (AddColumn t c) \<and> \<not> has_column cols c)"

text \<open>
  The columns of an existing table after a block that adds the missing ones of \<open>cs\<close> in
  order, up to the first alteration that fails; and the schema after the three blocks. The
  lemmas \<open>block_result\<close> and \<open>migrate_schema\<close> show that this is what \<open>exec_block\<close> and
  \<open>migrate_additive_schema\<close> compute.
\<close>

definition columns_after :: "(stmt \<Rightarrow> bool) \<Rightarrow> string \<Rightarrow> string list \<Rightarrow> string list \<Rightarrow> string list" where
  "columns_after fails t cs cols =
     cols @ takeWhile (addable fails t cols) (filter (\<lambda>c. c \<notin> set cols) cs)"

definition after_blocks :: "(stmt \<Rightarrow> bool) \<Rightarrow> schema \<Rightarrow> schema" where
  "after_blocks f s =
     s(''queries'' := map_option (columns_after f ''queries'' queries_columns) (s ''queries''),
       ''students'' := map_option (columns_after f ''students'' students_columns) (s ''students''),
       ''admins'' := map_option (columns_after f ''admins'' admins_columns) (s ''admins''))"



section \<open>Sample data\<close>

definition guest_row :: query where
  "guest_row =
     \<lparr>q_id = 1, q_name = ''Alice'', q_email = ''alice@x.com'',
      q_message = ''What time does the library open?'', q_category = Some ''facilities'',
      q_status = Some ''Pending'', q_response = Some ''Ask at the desk'',
      q_admin_response = Some ''Ask at the desk'',
      q_admin_reply_text = None, q_admin_reply_at = None, q_admin_reply_seen = Some False,
      q_student_id = None, q_created_at = Some 1\<rparr>"

definition student_row :: query where
  "student_row =
     \<lparr>q_id = 2, q_name = ''Bob'', q_email = ''bob@x.com'',
      q_message = ''Where is room 12?'', q_category = Some ''other'',
      q_status = Some ''Pending'', q_response = None, q_admin_response = None,
      q_admin_reply_text = None, q_admin_reply_at = None, q_admin_reply_seen = Some False,
      q_student_id = Some 7, q_created_at = Some 2\<rparr>"

definition sample_tables :: tables where
  "sample_tables =
     \<lparr>queries = [guest_row, student_row], students = [], blocked_emails = [], faqs = []\<rparr>"

definition sample_env :: env where
  "sample_env = \<lparr>mail_configured = True, mail_raises = False, faq_fault = FaqOk\<rparr>"

definition anonymous :: session where
  "anonymous = \<lparr>student_logged_in = False, sess_student_id = None\<rparr>"

definition student_session :: session where
  "student_session = \<lparr>student_logged_in = True, sess_student_id = Some 7\<rparr>"

definition blocked_student :: student where
  "blocked_student =
     \<lparr>s_id = 7, s_student_id = ''bob'', s_name = ''Bob'', s_email = ''bob@x.com'',
      s_password = ''hash'', s_is_blocked = Some True\<rparr>"

definition guest_form :: submit_form where
  "guest_form =
     \<lparr>form_name = None, form_guest_name = Some ''Alice'', form_email = None,
      form_guest_email = Some ''X@Example.com '', form_category = Some ''facilities'',
      form_message = None, form_guest_query = Some ''What time does the library open?''\<rparr>"

definition student_form :: submit_form where
  "student_form =
     \<lparr>form_name = Some ''Bob'', form_guest_name = None, form_email = Some ''bob@x.com'',
      form_guest_email = None, form_category = None,
      form_message = Some ''Where is room 12?'', form_guest_query = None\<rparr>"

definition library_form :: submit_form where
  "library_form =
     \<lparr>form_name = None, form_guest_name = Some ''Alice'', form_email = None,
      form_guest_email = Some ''alice@x.com'', form_category = Some ''facilities'',
      form_message = None, form_guest_query = Some ''What time does the library open?''\<rparr>"

definition blocking_tables :: tables where
  "blocking_tables =
     committed (toggle_block_guest 3 (Some ''x@example.com'')
       (sample_tables\<lparr>students := [blocked_student]\<rparr>))"

definition failing_env :: env where
  "failing_env = \<lparr>mail_configured = True, mail_raises = True, faq_fault = FaqCommitRaises\<rparr>"

definition library_faq :: faq where
  "library_faq =
     \<lparr>faq_id = 1, faq_question = ''What time does the library open?'', faq_answer = Some ''At 9'',
      faq_frequency = Some 3, faq_category = Some ''facilities'', faq_from_query_id = None,
      faq_is_active = Some True, faq_created_at = Some 1\<rparr>"

definition toggled_tables :: tables where
  "toggled_tables =
     (case toggle_faq 1 (sample_tables\<lparr>faqs := [library_faq]\<rparr>) of
        Some w \<Rightarrow> committed w
      | None \<Rightarrow> sample_tables)"

definition replied_tables :: tables where
  "replied_tables =
     committed (snd (update_status sample_env 5 (Some 2) (Some ''Responded'') (Some ''Room 12'')
       sample_tables))"

definition status_only_tables :: tables where
  "status_only_tables =
     committed (snd (update_status sample_env 5 (Some 2) (Some ''In Progress'') None
       sample_tables))"

text \<open>
  A schema from before the reply columns; an environment in which the first statement of
  the queries block fails and no other, and one in which the second does; and the same
  schema with a column \<open>Admin_Reply_Text\<close>, which SQLite takes for \<open>admin_reply_text\<close> and
  Python does not.
\<close>

definition legacy_schema :: schema where
  "legacy_schema =
     [''queries'' \<mapsto> [''id'', ''name'', ''email'', ''message'', ''status'', ''response'',
                       ''created_at'', ''student_id''],
      ''students'' \<mapsto> [''id'', ''student_id'', ''name'', ''email'', ''password''],
      ''admins'' \<mapsto> [''id'', ''username'', ''password_hash'']]"


definition locked_reply_at :: "stmt \<Rightarrow> bool" where
  "locked_reply_at st = (st = AddColumn ''queries'' ''admin_reply_at'')"


section \<open>Rows and keys\<close>

lemma find_update_first:
  "(\<And>x. P (g x) = P x) \<Longrightarrow> find P (update_first P g xs) = map_option g (find P xs)"
  by (induction xs) auto

lemma update_first_twice:
  "(\<And>x. P (g x) = P x) \<Longrightarrow>
     update_first P h (update_first P g xs) = update_first P (\<lambda>x. h (g x)) xs"
  by (induction xs) auto

lemma update_first_cong_found:
  "find P xs = Some x0 \<Longrightarrow> g x0 = h x0 \<Longrightarrow> update_first P g xs = update_first P h xs"
  by (induction xs) (auto split: if_splits)

lemma update_first_absent: "find P xs = None \<Longrightarrow> update_first P g xs = xs"
  by (induction xs) (auto split: if_splits)

lemma find_key: "find (\<lambda>q. q_id q = k) xs = Some q0 \<Longrightarrow> q_id q0 = k"
  by (induction xs) (auto split: if_splits)

lemma find_sample_student: "find (\<lambda>q. q_id q = 2) (queries sample_tables) = Some student_row"
  by (simp add: sample_tables_def guest_row_def student_row_def)

lemma find_sample_guest: "find (\<lambda>q. q_id q = 1) (queries sample_tables) = Some guest_row"
  by (simp add: sample_tables_def guest_row_def student_row_def)

section \<open>What update\_status stores\<close>

lemma q_id_set_response [simp]: "q_id (set_response st rt q) = q_id q"
  by (simp add: set_response_def)

lemma q_id_set_reply [simp]: "q_id (set_reply now rt q) = q_id q"
  by (simp add: set_reply_def)

lemma q_student_id_set_response [simp]: "q_student_id (set_response st rt q) = q_student_id q"
  by (simp add: set_response_def)

lemma q_id_stored_row [simp]: "q_id (stored_row now st rt q) = q_id q"
  by (simp add: stored_row_def split: option.splits)

lemma committed_update_status:
  assumes "find (\<lambda>q. q_id q = k) (queries t) = Some q0"
  shows "committed (snd (update_status e now (Some k) st rt t)) =
         t\<lparr>queries := update_first (\<lambda>q. q_id q = k) (stored_row now st rt) (queries t)\<rparr>"
proof (cases "q_student_id q0")
  case None
  then have "stored_row now st rt q0 = set_response st rt q0"
    by (simp add: stored_row_def)
  then have "update_first (\<lambda>q. q_id q = k) (stored_row now st rt) (queries t) =
             update_first (\<lambda>q. q_id q = k) (set_response st rt) (queries t)"
    using assms by (intro update_first_cong_found) auto
  with None assms show ?thesis
    by (simp add: update_status_def Let_def notify_def commit_def change_query_def
        begin_request_def emit_def)
next
  case (Some sid)
  then have "stored_row now st rt q0 = set_reply now rt (set_response st rt q0)"
    by (simp add: stored_row_def)
  then have "update_first (\<lambda>q. q_id q = k) (stored_row now st rt) (queries t) =
             update_first (\<lambda>q. q_id q = k) (\<lambda>q. set_reply now rt (set_response st rt q))
               (queries t)"
    using assms by (intro update_first_cong_found) auto
  with Some assms find_key[OF assms] show ?thesis
    by (simp add: update_status_def Let_def notify_def commit_def change_query_def
        begin_request_def emit_def update_first_twice)
qed

lemma committed_update_status_absent:
  assumes "find (\<lambda>q. q_id q = k) (queries t) = None"
  shows "committed (snd (update_status e now (Some k) st rt t)) = t"
  using assms by (simp add: update_status_def begin_request_def)

lemma stored_query_update_status:
  assumes "find (\<lambda>q. q_id q = k) (queries t) = Some q0"
  shows "stored_query k (snd (update_status e now (Some k) st rt t)) =
         Some (stored_row now st rt q0)"
  using assms
  by (simp add: stored_query_def committed_update_status find_update_first)

lemma mails_update_status:
  assumes "find (\<lambda>q. q_id q = k) (queries t) = Some q0" and "q_student_id q0 = Some sid"
  shows "mails (snd (update_status e now (Some k) st rt t)) = []"
  using assms
  by (simp add: update_status_def Let_def notify_def commit_def change_query_def
        begin_request_def mails_def)

lemma reply_text_of_row:
  "text_of (por (por (por rt a) rt) (Some [])) = text_of (por rt a)"
  by (cases rt; cases a) auto

lemma reply_fields_stored_row:
  assumes "q_student_id q0 = Some sid"
  shows "q_admin_reply_text (stored_row now st rt q0) =
           Some (strip (text_of (por rt (q_admin_response q0))))"
    and "q_admin_reply_at (stored_row now st rt q0) = Some now"
    and "q_admin_reply_seen (stored_row now st rt q0) = Some False"
  using assms
  by (simp_all add: stored_row_def set_reply_def set_response_def reply_text_of_row)

lemma reply_fields_guest_row:
  assumes "q_student_id q0 = None"
  shows "q_admin_reply_text (stored_row now st rt q0) = q_admin_reply_text q0"
    and "q_admin_reply_at (stored_row now st rt q0) = q_admin_reply_at q0"
    and "q_admin_reply_seen (stored_row now st rt q0) = q_admin_reply_seen q0"
  using assms
  by (simp_all add: stored_row_def set_response_def)

lemma stored_row_twice:
  "stored_row now2 st rt (stored_row now1 st rt q) = stored_row now2 st rt q"
  by (cases st; cases rt; cases "q_student_id q")
     (auto simp: stored_row_def set_response_def set_reply_def)

lemma committed_update_twice:
  assumes "find (\<lambda>q. q_id q = k) (queries t) = Some q0"
  shows "committed (snd (update_status e2 now2 (Some k) st rt
           (committed (snd (update_status e1 now1 (Some k) st rt t))))) =
         t\<lparr>queries := update_first (\<lambda>q. q_id q = k) (stored_row now2 st rt) (queries t)\<rparr>"
proof -
  let ?t1 = "t\<lparr>queries :=
               update_first (\<lambda>q. q_id q = k) (stored_row now1 st rt) (queries t)\<rparr>"
  have "find (\<lambda>q. q_id q = k) (queries ?t1) = Some (stored_row now1 st rt q0)"
    using assms by (simp add: find_update_first)
  then show ?thesis
    using assms by (simp add: committed_update_status update_first_twice stored_row_twice)
qed

lemma stored_query_update_twice:
  assumes "find (\<lambda>q. q_id q = k) (queries t) = Some q0"
  shows "stored_query k (snd (update_status e2 now2 (Some k) st rt
           (committed (snd (update_status e1 now1 (Some k) st rt t))))) =
         Some (stored_row now2 st rt q0)"
  unfolding stored_query_def committed_update_twice [OF assms]
  using assms by (simp add: find_update_first)

lemma strip_room: "strip '' See room 12 '' = ''See room 12''"
  by (simp add: strip_def isspace_def)

section \<open>Responding to a query\<close>

text \<open>
  C4, as the code has it: for every existing query, \<open>update_status\<close> reports the update
  and stores the provided status when it is a non-empty string, and the provided response
  text in both \<open>response\<close> and \<open>admin_response\<close> when it is a non-empty string. A status or
  response text that is absent or empty leaves the stored value of its fields as it was.
\<close>

theorem update_status_sets_fields:
  assumes "find (\<lambda>q. q_id q = k) (queries t) = Some q0"
  shows "fst (update_status e now (Some k) status response_text t) = QueryUpdated \<and>
         (\<exists>q. stored_query k (snd (update_status e now (Some k) status response_text t)) = Some q \<and>
            q_status q = (if truthy status then status else q_status q0) \<and>
            q_response q = (if truthy response_text then response_text else q_response q0) \<and>
            q_admin_response q =
              (if truthy response_text then response_text else q_admin_response q0))"
proof -
  have "fst (update_status e now (Some k) status response_text t) = QueryUpdated"
    using assms by (simp add: update_status_def Let_def)
  moreover have "q_status (stored_row now status response_text q0) =
          (if truthy status then status else q_status q0)"
    by (cases status) (auto simp: stored_row_def set_response_def set_reply_def split: option.splits)
  moreover have "q_response (stored_row now status response_text q0) =
          (if truthy response_text then response_text else q_response q0)"
    by (cases response_text)
      (auto simp: stored_row_def set_response_def set_reply_def split: option.splits)
  moreover have "q_admin_response (stored_row now status response_text q0) =
          (if truthy response_text then response_text else q_admin_response q0)"
    by (cases response_text)
      (auto simp: stored_row_def set_response_def set_reply_def split: option.splits)
  ultimately show ?thesis
    using stored_query_update_status[OF assms] by simp
qed

text \<open>The theorem at the student's query of the sample, with a status and a response.\<close>

theorem update_status_sets_fields_witness:
  "find (\<lambda>q. q_id q = 2) (queries sample_tables) = Some student_row \<and>
   (\<exists>q. stored_query 2 (snd (update_status sample_env 5 (Some 2) (Some ''Resolved'')
            (Some ''Second floor'') sample_tables)) = Some q \<and>
      q_status q = Some ''Resolved'' \<and> q_response q = Some ''Second floor'' \<and>
      q_admin_response q = Some ''Second floor'')"
  using update_status_sets_fields [OF find_sample_student, of sample_env 5 "Some ''Resolved''"
      "Some ''Second floor''"] find_sample_student
  by simp

text \<open>
  C4 as stated fails for an empty status and an empty response text: the guest's query of
  the sample keeps its status \<open>Pending\<close> and its response, in both fields.
\<close>

theorem update_status_empty_response_counterexample:
  "map_option q_status (stored_query 1 (snd (update_status sample_env 5 (Some 1) (Some [])
       (Some []) sample_tables))) = Some (Some ''Pending'') \<and>
   map_option q_response (stored_query 1 (snd (update_status sample_env 5 (Some 1) (Some [])
       (Some []) sample_tables))) = Some (Some ''Ask at the desk'') \<and>
   map_option q_admin_response (stored_query 1 (snd (update_status sample_env 5 (Some 1) (Some [])
       (Some []) sample_tables))) = Some (Some ''Ask at the desk'')"
  by (simp add: stored_query_update_status [OF find_sample_guest] stored_row_def guest_row_def
      set_response_def)

text \<open>
  C1, as the code has it: for every existing query, a call of \<open>update_status\<close> on a query
  without a student leaves \<open>admin_reply_text\<close>, \<open>admin_reply_at\<close> and \<open>admin_reply_seen\<close> as
  they were; a call on a query with a student hands no mail to \<open>mail.send\<close> and stores the
  reply text, the time of the call and \<open>admin_reply_seen = False\<close>, where the reply text is
  the response text without its leading and trailing whitespace when the response text is
  non-empty, and otherwise the \<open>admin_response\<close> stored before, stripped likewise (the empty
  string when there was none).
\<close>

theorem respond_branches_exclusive:
  assumes "find (\<lambda>q. q_id q = k) (queries t) = Some q0"
  shows "\<exists>q. stored_query k (snd (update_status e now (Some k) status response_text t)) = Some q \<and>
           (q_student_id q0 = None \<longrightarrow>
              q_admin_reply_text q = q_admin_reply_text q0 \<and>
              q_admin_reply_at q = q_admin_reply_at q0 \<and>
              q_admin_reply_seen q = q_admin_reply_seen q0) \<and>
           (q_student_id q0 \<noteq> None \<longrightarrow>
              mails (snd (update_status e now (Some k) status response_text t)) = [] \<and>
              q_admin_reply_text q =
                Some (strip (text_of (por response_text (q_admin_response q0)))) \<and>
              q_admin_reply_at q = Some now \<and>
              q_admin_reply_seen q = Some False)"
proof (cases "q_student_id q0")
  case None
  then show ?thesis
    using stored_query_update_status[OF assms] by (simp add: reply_fields_guest_row)
next
  case (Some sid)
  then show ?thesis
    using stored_query_update_status[OF assms] mails_update_status[OF assms Some]
    by (simp add: reply_fields_stored_row)
qed

text \<open>The theorem at the student's query of the sample.\<close>

theorem respond_branches_exclusive_witness:
  "find (\<lambda>q. q_id q = 2) (queries sample_tables) = Some student_row \<and>
   q_student_id student_row \<noteq> None \<and>
   (\<exists>q. stored_query 2 (snd (update_status sample_env 5 (Some 2) (Some ''Responded'')
            (Some '' See room 12 '') sample_tables)) = Some q \<and>
      mails (snd (update_status sample_env 5 (Some 2) (Some ''Responded'')
            (Some '' See room 12 '') sample_tables)) = [] \<and>
      q_admin_reply_text q = Some ''See room 12'' \<and>
      q_admin_reply_at q = Some 5 \<and> q_admin_reply_seen q = Some False)"
  using respond_branches_exclusive [OF find_sample_student, of sample_env 5 "Some ''Responded''"
      "Some '' See room 12 ''"] find_sample_student strip_room
  by (simp add: student_row_def)

text \<open>
  C1 as stated fails on the reply text: the response \<open>'' See room 12 ''\<close> to the student's
  query of the sample is stored as the reply text \<open>''See room 12''\<close>, which is not the
  response.
\<close>

theorem reply_text_counterexample:
  "map_option q_admin_reply_text (stored_query 2 (snd (update_status sample_env 5 (Some 2)
       (Some ''Responded'') (Some '' See room 12 '') sample_tables))) = Some (Some ''See room 12'') \<and>
   map_option q_admin_reply_text (stored_query 2 (snd (update_status sample_env 5 (Some 2)
       (Some ''Responded'') (Some '' See room 12 '') sample_tables))) \<noteq> Some (Some '' See room 12 '')"
  by (simp add: stored_query_update_status [OF find_sample_student] reply_fields_stored_row
      student_row_def strip_room)

lemma replied_tables_eq:
  "replied_tables =
     sample_tables\<lparr>queries := [guest_row,
       student_row\<lparr>q_status := Some ''Responded'', q_response := Some ''Room 12'',
         q_admin_response := Some ''Room 12'', q_admin_reply_text := Some ''Room 12'',
         q_admin_reply_at := Some 5, q_admin_reply_seen := Some False\<rparr>]\<rparr>"
  unfolding replied_tables_def committed_update_status [OF find_sample_student]
  by (simp add: sample_tables_def guest_row_def student_row_def stored_row_def set_response_def
      set_reply_def strip_def isspace_def)

lemma stored_row_second:
  "stored_row now2 st rt q =
     (if q_student_id (stored_row now1 st rt q) = None then stored_row now1 st rt q
      else (stored_row now1 st rt q)\<lparr>q_admin_reply_at := Some now2\<rparr>)"
  by (cases "q_student_id q") (simp_all add: stored_row_def set_response_def set_reply_def)

lemma committed_update_second:
  assumes "find (\<lambda>q. q_id q = k) (queries t) = Some q0"
  shows "t\<lparr>queries := update_first (\<lambda>q. q_id q = k) (stored_row now2 st rt) (queries t)\<rparr> =
         (t\<lparr>queries := update_first (\<lambda>q. q_id q = k) (stored_row now1 st rt) (queries t)\<rparr>)
           \<lparr>queries := update_first (\<lambda>q. q_id q = k)
               (\<lambda>q. if q_student_id q = None then q else q\<lparr>q_admin_reply_at := Some now2\<rparr>)
               (queries (t\<lparr>queries :=
                  update_first (\<lambda>q. q_id q = k) (stored_row now1 st rt) (queries t)\<rparr>))\<rparr>"
proof -
  have "update_first (\<lambda>q. q_id q = k)
          (\<lambda>q. if q_student_id q = None then q else q\<lparr>q_admin_reply_at := Some now2\<rparr>)
          (update_first (\<lambda>q. q_id q = k) (stored_row now1 st rt) (queries t)) =
        update_first (\<lambda>q. q_id q = k)
          (\<lambda>q. if q_student_id (stored_row now1 st rt q) = None then stored_row now1 st rt q
                else (stored_row now1 st rt q)\<lparr>q_admin_reply_at := Some now2\<rparr>) (queries t)"
    by (rule update_first_twice) simp
  also have "\<dots> = update_first (\<lambda>q. q_id q = k) (stored_row now2 st rt) (queries t)"
    by (simp only: stored_row_second [symmetric, of now1 st rt _ now2])
  finally show ?thesis by simp
qed

text \<open>
  C5, as the code has it: of two calls of \<open>update_status\<close> in succession with the same query
  id, status and response text, the second changes nothing in the stored tables but the
  \<open>admin_reply_at\<close> of the query when it is a student's, which takes the time of the second
  call: every other field of that row, every other row and every other table stay as the
  first call left them, and the row of a guest's query stays whole. The tables are then
  those that one call made at the time of the second call leaves.
\<close>

theorem respond_twice:
  "committed (snd (update_status e2 now2 qid status response_text
       (committed (snd (update_status e1 now1 qid status response_text t))))) =
     (case qid of
        None \<Rightarrow> committed (snd (update_status e1 now1 qid status response_text t))
      | Some k \<Rightarrow>
          (committed (snd (update_status e1 now1 qid status response_text t)))
            \<lparr>queries := update_first (\<lambda>q. q_id q = k)
               (\<lambda>q. if q_student_id q = None then q else q\<lparr>q_admin_reply_at := Some now2\<rparr>)
               (queries (committed (snd (update_status e1 now1 qid status response_text t))))\<rparr>) \<and>
   committed (snd (update_status e2 now2 qid status response_text
       (committed (snd (update_status e1 now1 qid status response_text t))))) =
     committed (snd (update_status e2 now2 qid status response_text t))"
proof (cases qid)
  case None
  then show ?thesis by (simp add: update_status_def begin_request_def)
next
  case (Some k)
  show ?thesis
  proof (cases "find (\<lambda>q. q_id q = k) (queries t)")
    case None
    then show ?thesis
      using Some by (simp add: committed_update_status_absent update_first_absent)
  next
    case found: (Some q0)
    have once: "committed (snd (update_status e1 now1 (Some k) status response_text t)) =
       t\<lparr>queries := update_first (\<lambda>q. q_id q = k) (stored_row now1 status response_text)
            (queries t)\<rparr>"
      by (rule committed_update_status [OF found])
    have twice: "committed (snd (update_status e2 now2 (Some k) status response_text
       (committed (snd (update_status e1 now1 (Some k) status response_text t))))) =
       t\<lparr>queries := update_first (\<lambda>q. q_id q = k) (stored_row now2 status response_text)
            (queries t)\<rparr>"
      by (rule committed_update_twice [OF found])
    note twice' = twice [unfolded once]
    have late: "committed (snd (update_status e2 now2 (Some k) status response_text t)) =
       t\<lparr>queries := update_first (\<lambda>q. q_id q = k) (stored_row now2 status response_text)
            (queries t)\<rparr>"
      by (rule committed_update_status [OF found])
    show ?thesis
      unfolding Some option.case once twice' late
      by (rule conjI [OF committed_update_second [OF found] refl])
  qed
qed

text \<open>
  The theorem at the student's query of the sample, with calls at times 5 and 9: the row
  stored after the two calls, and the row stored after the first, which differ in
  \<open>admin_reply_at\<close> alone.
\<close>

theorem respond_twice_witness:
  "stored_query 2 (snd (update_status sample_env 9 (Some 2) (Some ''Responded'') (Some ''Room 12'')
       (committed (snd (update_status sample_env 5 (Some 2) (Some ''Responded'') (Some ''Room 12'')
          sample_tables))))) =
     Some (student_row\<lparr>q_status := Some ''Responded'', q_response := Some ''Room 12'',
         q_admin_response := Some ''Room 12'', q_admin_reply_text := Some ''Room 12'',
         q_admin_reply_at := Some 9, q_admin_reply_seen := Some False\<rparr>) \<and>
   stored_query 2 (snd (update_status sample_env 5 (Some 2) (Some ''Responded'') (Some ''Room 12'')
          sample_tables)) =
     Some (student_row\<lparr>q_status := Some ''Responded'', q_response := Some ''Room 12'',
         q_admin_response := Some ''Room 12'', q_admin_reply_text := Some ''Room 12'',
         q_admin_reply_at := Some 5, q_admin_reply_seen := Some False\<rparr>)"
proof -
  have once: "committed (snd (update_status sample_env 5 (Some 2) (Some ''Responded'')
       (Some ''Room 12'') sample_tables)) = replied_tables"
    by (simp add: replied_tables_def)
  have "committed (snd (update_status sample_env 9 (Some 2) (Some ''Responded'') (Some ''Room 12'')
       replied_tables)) =
     replied_tables\<lparr>queries := update_first (\<lambda>q. q_id q = 2)
        (\<lambda>q. if q_student_id q = None then q else q\<lparr>q_admin_reply_at := Some 9\<rparr>)
        (queries replied_tables)\<rparr>"
    using respond_twice [of sample_env 9 "Some 2" "Some ''Responded''" "Some ''Room 12''"
        sample_env 5 sample_tables]
    by (simp only: once option.case)
  then show ?thesis
    by (simp add: stored_query_def once)
       (simp add: replied_tables_eq sample_tables_def guest_row_def student_row_def)
qed

text \<open>
  C5 as stated fails on \<open>admin_reply_at\<close>: after calls at times 5 and 9 the stored row of
  the student's query has the reply time 9, and after the first call alone it has 5.
\<close>

theorem respond_twice_timestamp_counterexample:
  "map_option q_admin_reply_at
     (stored_query 2 (snd (update_status sample_env 9 (Some 2) (Some ''Responded'') (Some ''Room 12'')
       (committed (snd (update_status sample_env 5 (Some 2) (Some ''Responded'') (Some ''Room 12'')
          sample_tables)))))) = Some (Some 9) \<and>
   map_option q_admin_reply_at
     (stored_query 2 (snd (update_status sample_env 5 (Some 2) (Some ''Responded'') (Some ''Room 12'')
       sample_tables))) = Some (Some 5)"
proof -
  have twice: "stored_query 2 (snd (update_status sample_env 9 (Some 2) (Some ''Responded'')
       (Some ''Room 12'') (committed (snd (update_status sample_env 5 (Some 2) (Some ''Responded'')
          (Some ''Room 12'') sample_tables))))) =
     Some (stored_row 9 (Some ''Responded'') (Some ''Room 12'') student_row)"
    by (rule stored_query_update_twice [OF find_sample_student])
  have once: "stored_query 2 (snd (update_status sample_env 5 (Some 2) (Some ''Responded'')
       (Some ''Room 12'') sample_tables)) =
     Some (stored_row 5 (Some ''Responded'') (Some ''Room 12'') student_row)"
    by (rule stored_query_update_status [OF find_sample_student])
  show ?thesis
    by (simp add: twice once reply_fields_stored_row student_row_def)
qed

section \<open>Submitting a query\<close>

lemma find_None_conv: "(find P xs = None) = (\<forall>x\<in>set xs. \<not> P x)"
  by (induction xs) auto

lemma submit_incomplete:
  "\<not> form_complete form \<Longrightarrow> submit_query e now sess form t = (AllFieldsRequired, begin_request t)"
  by (auto simp: submit_query_def form_complete_def Let_def)

lemma submit_rejected:
  "form_complete form \<Longrightarrow> sender_check (sess_student_id sess) (submitted_email form) t = Some r \<Longrightarrow>
     submit_query e now sess form t = (r, begin_request t)"
  by (auto simp: submit_query_def form_complete_def Let_def submitted_email_def)

lemma guest_check_blocked:
  assumes "\<exists>b\<in>set (blocked_emails t). be_email b = lower (strip email) \<and> be_is_active b = Some True"
      and "email \<noteq> []"
  shows "guest_check email t = Some EmailBlocked"
  using assms by (auto simp: guest_check_def find_None_conv)

lemma form_complete_email: "form_complete form \<Longrightarrow> submitted_email form \<noteq> []"
  by (auto simp: form_complete_def submitted_email_def
      elim!: truthy.elims)

text \<open>
  C2: a submission without a student in the session, when \<open>blocked_emails\<close> has an active
  entry for the submitted address (the entry holds the address stripped and in lower case,
  as \<open>toggle_block_guest\<close> stores it), is rejected, and so is a submission with a student
  in the session whose row has \<open>is_blocked\<close> true (the key of a student is not 0). In both
  cases the result is the rejection of the sender when the required fields are present and
  the validation error otherwise, nothing is committed and the tables are as before.
\<close>

theorem blocked_sender_rejected:
  "(sess_student_id sess = None \<and>
    (\<exists>b\<in>set (blocked_emails t).
       be_email b = lower (strip (submitted_email form)) \<and> be_is_active b = Some True) \<longrightarrow>
      submit_query e now sess form t =
        (if form_complete form then EmailBlocked else AllFieldsRequired, begin_request t)) \<and>
   (\<forall>n s. sess_student_id sess = Some n \<and> n \<noteq> 0 \<and>
      find (\<lambda>s. s_id s = n) (students t) = Some s \<and> s_is_blocked s = Some True \<longrightarrow>
      submit_query e now sess form t =
        (if form_complete form then AccountBlocked else AllFieldsRequired, begin_request t))"
proof (intro conjI impI allI)
  assume a: "sess_student_id sess = None \<and>
    (\<exists>b\<in>set (blocked_emails t).
       be_email b = lower (strip (submitted_email form)) \<and> be_is_active b = Some True)"
  show "submit_query e now sess form t =
        (if form_complete form then EmailBlocked else AllFieldsRequired, begin_request t)"
  proof (cases "form_complete form")
    case True
    then have "sender_check (sess_student_id sess) (submitted_email form) t = Some EmailBlocked"
      using a guest_check_blocked[of t "submitted_email form"] form_complete_email
      by (simp add: sender_check_def)
    then show ?thesis using True by (simp add: submit_rejected)
  next
    case False
    then show ?thesis by (simp add: submit_incomplete)
  qed
next
  fix n s
  assume a: "sess_student_id sess = Some n \<and> n \<noteq> 0 \<and>
      find (\<lambda>s. s_id s = n) (students t) = Some s \<and> s_is_blocked s = Some True"
  show "submit_query e now sess form t =
        (if form_complete form then AccountBlocked else AllFieldsRequired, begin_request t)"
  proof (cases "form_complete form")
    case True
    have "sender_check (sess_student_id sess) (submitted_email form) t = Some AccountBlocked"
      using a by (simp add: sender_check_def student_check_def)
    then show ?thesis using True by (simp add: submit_rejected)
  next
    case False
    then show ?thesis by (simp add: submit_incomplete)
  qed
qed

lemma lower_example: "lower (strip ''X@Example.com '') = ''x@example.com''"
  by code_simp

lemma lower_example2: "lower (strip ''x@example.com'') = ''x@example.com''"
  by code_simp

lemma blocking_tables_eq:
  "blocking_tables =
     sample_tables\<lparr>students := [blocked_student],
       blocked_emails := [\<lparr>be_id = 1, be_email = ''x@example.com'', be_is_active = Some True,
                           be_created_at = Some 3\<rparr>]\<rparr>"
  by (simp add: blocking_tables_def toggle_block_guest_def lower_example2 sample_tables_def
      commit_def begin_request_def next_id_def Let_def)

text \<open>
  The theorem at a guest whose address was blocked through \<open>toggle_block_guest\<close> and who
  submits it in another case and with a trailing blank, and at a blocked student.
\<close>

theorem blocked_sender_rejected_witness:
  "(sess_student_id anonymous = None \<and>
    (\<exists>b\<in>set (blocked_emails blocking_tables).
       be_email b = lower (strip (submitted_email guest_form)) \<and> be_is_active b = Some True) \<and>
    submit_query sample_env 4 anonymous guest_form blocking_tables =
      (EmailBlocked, begin_request blocking_tables)) \<and>
   (sess_student_id student_session = Some 7 \<and>
    find (\<lambda>s. s_id s = 7) (students blocking_tables) = Some blocked_student \<and>
    s_is_blocked blocked_student = Some True \<and>
    submit_query sample_env 4 student_session student_form blocking_tables =
      (AccountBlocked, begin_request blocking_tables))"
proof -
  have g: "submitted_email guest_form = ''X@Example.com ''"
    by (simp add: submitted_email_def guest_form_def)
  have "form_complete guest_form" "form_complete student_form"
    by (simp_all add: form_complete_def guest_form_def student_form_def)
  then show ?thesis
    using blocked_sender_rejected [of anonymous blocking_tables guest_form sample_env 4]
      blocked_sender_rejected [of student_session blocking_tables student_form sample_env 4]
    by (simp add: g lower_example blocking_tables_eq anonymous_def student_session_def
        blocked_student_def)
qed

lemma sender_check_not_submitted: "sender_check fk email t \<noteq> Some Submitted"
  by (auto simp: sender_check_def guest_check_def student_check_def split: option.splits)

lemma submit_accepted:
  assumes "fst (submit_query e now sess form t) = Submitted"
  shows "snd (submit_query e now sess form t) =
         faq_update e now (text_of (por (form_message form) (form_guest_query form)))
           (por (form_category form) (Some ''other''))
           (insert_query (submitted_row now sess form t) (begin_request t))"
  using assms
  using sender_check_not_submitted
  by (auto simp: submit_query_def Let_def submitted_row_def split: if_splits option.splits)

lemma insert_query_world:
  "insert_query (submitted_row now sess form t) (begin_request t) =
     \<lparr>committed = with_query now sess form t, working = with_query now sess form t,
      trace = [Commit (with_query now sess form t)]\<rparr>"
  by (simp add: insert_query_def begin_request_def commit_def with_query_def)

lemma faqs_with_query [simp]: "faqs (with_query now sess form t) = faqs t"
  by (simp add: with_query_def)

lemma queries_with_query [simp]:
  "queries (with_query now sess form t) = queries t @ [submitted_row now sess form t]"
  by (simp add: with_query_def)

lemma submit_trace_head:
  assumes "fst (submit_query e now sess form t) = Submitted"
  shows "\<exists>rest. trace (snd (submit_query e now sess form t)) =
           Commit (with_query now sess form t) # rest"
  unfolding submit_accepted [OF assms] insert_query_world
  by (simp add: faq_update_def faq_failed_def faq_commit_def rollback_def emit_def commit_def
      split: option.splits)

lemma submit_queries:
  assumes "fst (submit_query e now sess form t) = Submitted"
  shows "queries (committed (snd (submit_query e now sess form t))) =
           queries t @ [submitted_row now sess form t]"
  unfolding submit_accepted [OF assms] insert_query_world
  by (simp add: faq_update_def faq_failed_def faq_commit_def rollback_def emit_def commit_def
      split: option.splits)

lemma submit_faq_fault:
  assumes "fst (submit_query e now sess form t) = Submitted" and "faq_fault e \<noteq> FaqOk"
  shows "committed (snd (submit_query e now sess form t)) = with_query now sess form t"
  unfolding submit_accepted [OF assms(1)] insert_query_world
  using assms(2)
  by (cases "faq_fault e")
     (simp_all add: faq_update_def faq_failed_def faq_commit_def rollback_def emit_def commit_def
      split: option.splits)

lemma submit_faqs_new:
  assumes "fst (submit_query e now sess form t) = Submitted" and "faq_fault e = FaqOk"
      and "find (active_faq (submitted_message form)) (faqs t) = None"
  shows "faqs (committed (snd (submit_query e now sess form t))) =
           faqs t @ [submitted_faq now form t]"
  unfolding submit_accepted [OF assms(1)] insert_query_world
  using assms(2,3)
  by (simp add: faq_update_def faq_commit_def commit_def submitted_message_def submitted_faq_def)

lemma submit_faqs_existing:
  assumes "fst (submit_query e now sess form t) = Submitted" and "faq_fault e = FaqOk"
      and "find (active_faq (submitted_message form)) (faqs t) = Some f"
      and "faq_frequency f = Some n"
  shows "faqs (committed (snd (submit_query e now sess form t))) =
           update_first (active_faq (submitted_message form))
             (\<lambda>f. f\<lparr>faq_frequency := Some (n + 1)\<rparr>) (faqs t)"
  unfolding submit_accepted [OF assms(1)] insert_query_world
  using assms(2,3,4)
  by (simp add: faq_update_def faq_commit_def commit_def submitted_message_def)

lemma submitted_faq_fields [simp]:
  "faq_question (submitted_faq now form t) = submitted_message form"
  "faq_answer (submitted_faq now form t) = None"
  "faq_frequency (submitted_faq now form t) = Some 1"
  "faq_category (submitted_faq now form t) = submitted_category form"
  "faq_is_active (submitted_faq now form t) = Some True"
  by (simp_all add: submitted_faq_def new_faq_def submitted_message_def submitted_category_def
      Let_def)

lemma find_append_last:
  "find P xs = None \<Longrightarrow> P x \<Longrightarrow> find P (xs @ [x]) = Some x"
  by (induction xs) (auto split: if_splits)

lemma find_append_none:
  "find P xs = None \<Longrightarrow> \<not> P x \<Longrightarrow> find P (xs @ [x]) = None"
  by (induction xs) (auto split: if_splits)

lemma update_first_append_last:
  "find P xs = None \<Longrightarrow> P x \<Longrightarrow> update_first P g (xs @ [x]) = xs @ [g x]"
  by (induction xs) (auto split: if_splits)

lemma filter_none: "\<forall>x\<in>set xs. \<not> P x \<Longrightarrow> filter P xs = []"
  by (induction xs) auto

lemma no_question_no_active:
  "\<forall>f\<in>set fs. faq_question f \<noteq> m \<Longrightarrow> find (active_faq m) fs = None"
  by (simp add: find_None_conv active_faq_def)

text \<open>
  C3: take two accepted submissions in succession, with the FAQ block of both running
  without a storage error, from tables with no FAQ row for either message text (the text
  as stored, stripped). After the first there is one FAQ row for its text, with frequency
  1, no answer and the category of the submission. After both, when the texts are the same
  there is exactly one row for the text, with frequency 2, no answer and the category of
  the first submission; when they differ there is exactly one row for each, with frequency
  1, no answer and the category of its submission.
\<close>

theorem faq_aggregation:
  assumes first: "fst (submit_query e1 now1 sess1 form1 t) = Submitted"
      and second: "fst (submit_query e2 now2 sess2 form2
                     (committed (snd (submit_query e1 now1 sess1 form1 t)))) = Submitted"
      and ok: "faq_fault e1 = FaqOk" "faq_fault e2 = FaqOk"
      and fresh: "\<forall>f\<in>set (faqs t). faq_question f \<noteq> submitted_message form1 \<and>
                    faq_question f \<noteq> submitted_message form2"
  shows "(\<exists>f. filter (\<lambda>f. faq_question f = submitted_message form1)
                 (faqs (committed (snd (submit_query e1 now1 sess1 form1 t)))) = [f] \<and>
              faq_frequency f = Some 1 \<and> faq_answer f = None \<and>
              faq_category f = submitted_category form1) \<and>
         (submitted_message form1 = submitted_message form2 \<longrightarrow>
            (\<exists>f. filter (\<lambda>f. faq_question f = submitted_message form1)
                    (faqs (committed (snd (submit_query e2 now2 sess2 form2
                       (committed (snd (submit_query e1 now1 sess1 form1 t))))))) = [f] \<and>
                 faq_frequency f = Some 2 \<and> faq_answer f = None \<and>
                 faq_category f = submitted_category form1)) \<and>
         (submitted_message form1 \<noteq> submitted_message form2 \<longrightarrow>
            (\<exists>f1 f2.
               filter (\<lambda>f. faq_question f = submitted_message form1)
                 (faqs (committed (snd (submit_query e2 now2 sess2 form2
                    (committed (snd (submit_query e1 now1 sess1 form1 t))))))) = [f1] \<and>
               filter (\<lambda>f. faq_question f = submitted_message form2)
                 (faqs (committed (snd (submit_query e2 now2 sess2 form2
                    (committed (snd (submit_query e1 now1 sess1 form1 t))))))) = [f2] \<and>
               faq_frequency f1 = Some 1 \<and> faq_frequency f2 = Some 1 \<and>
               faq_answer f1 = None \<and> faq_answer f2 = None \<and>
               faq_category f1 = submitted_category form1 \<and>
               faq_category f2 = submitted_category form2))"
proof -
  let ?m1 = "submitted_message form1" and ?m2 = "submitted_message form2"
  let ?t1 = "committed (snd (submit_query e1 now1 sess1 form1 t))"
  let ?t2 = "committed (snd (submit_query e2 now2 sess2 form2 ?t1))"
  let ?nf1 = "submitted_faq now1 form1 t"
  have no1: "\<forall>f\<in>set (faqs t). faq_question f \<noteq> ?m1"
    and no2: "\<forall>f\<in>set (faqs t). faq_question f \<noteq> ?m2"
    using fresh by auto
  have f1: "filter (\<lambda>f. faq_question f = ?m1) (faqs t) = []"
    and f2: "filter (\<lambda>f. faq_question f = ?m2) (faqs t) = []"
    using no1 no2 by (simp_all add: filter_none)
  have t1: "faqs ?t1 = faqs t @ [?nf1]"
    using submit_faqs_new [OF first ok(1) no_question_no_active [OF no1]] .
  have once: "\<exists>f. filter (\<lambda>f. faq_question f = ?m1) (faqs ?t1) = [f] \<and>
              faq_frequency f = Some 1 \<and> faq_answer f = None \<and>
              faq_category f = submitted_category form1"
    by (simp add: t1 f1)
  have same: "\<exists>f. filter (\<lambda>f. faq_question f = ?m1) (faqs ?t2) = [f] \<and>
                 faq_frequency f = Some 2 \<and> faq_answer f = None \<and>
                 faq_category f = submitted_category form1" if eq: "?m1 = ?m2"
  proof -
    have act: "active_faq ?m2 ?nf1"
      using eq by (simp add: active_faq_def)
    have none: "find (active_faq ?m2) (faqs t) = None"
      by (rule no_question_no_active [OF no2])
    have "find (active_faq ?m2) (faqs ?t1) = Some ?nf1"
      unfolding t1 by (rule find_append_last [OF none act])
    from submit_faqs_existing [OF second ok(2) this, of 1]
    have "faqs ?t2 = update_first (active_faq ?m2) (\<lambda>f. f\<lparr>faq_frequency := Some (1 + 1)\<rparr>)
                       (faqs t @ [?nf1])"
      by (simp add: t1)
    then have "faqs ?t2 = faqs t @ [?nf1\<lparr>faq_frequency := Some 2\<rparr>]"
      by (simp add: update_first_append_last [OF none act])
    then show ?thesis
      by (simp add: f1)
  qed
  have differ: "\<exists>f1 f2.
               filter (\<lambda>f. faq_question f = ?m1) (faqs ?t2) = [f1] \<and>
               filter (\<lambda>f. faq_question f = ?m2) (faqs ?t2) = [f2] \<and>
               faq_frequency f1 = Some 1 \<and> faq_frequency f2 = Some 1 \<and>
               faq_answer f1 = None \<and> faq_answer f2 = None \<and>
               faq_category f1 = submitted_category form1 \<and>
               faq_category f2 = submitted_category form2" if neq: "?m1 \<noteq> ?m2"
  proof -
    have nact: "\<not> active_faq ?m2 ?nf1"
      using neq by (simp add: active_faq_def)
    have none: "find (active_faq ?m2) (faqs t) = None"
      by (rule no_question_no_active [OF no2])
    have "find (active_faq ?m2) (faqs ?t1) = None"
      unfolding t1 by (rule find_append_none [OF none nact])
    from submit_faqs_new [OF second ok(2) this]
    have "faqs ?t2 = faqs t @ [?nf1, submitted_faq now2 form2 ?t1]"
      by (simp add: t1)
    then show ?thesis
      using neq by (simp add: f1 f2)
  qed
  from once same differ show ?thesis by blast
qed

text \<open>
  C10: when the only FAQ row with the text of an accepted submission is not active, the
  submission (its FAQ block running without a storage error) leaves that row as it is and
  appends a second row for the same text, active and with frequency 1.
\<close>

theorem inactive_faq_not_matched:
  assumes accepted: "fst (submit_query e now sess form t) = Submitted"
      and ok: "faq_fault e = FaqOk"
      and only: "filter (\<lambda>f. faq_question f = submitted_message form) (faqs t) = [f0]"
      and inactive: "faq_is_active f0 \<noteq> Some True"
  shows "\<exists>f. faqs (committed (snd (submit_query e now sess form t))) = faqs t @ [f] \<and>
             filter (\<lambda>f. faq_question f = submitted_message form)
               (faqs (committed (snd (submit_query e now sess form t)))) = [f0, f] \<and>
             faq_question f = submitted_message form \<and>
             faq_frequency f = Some 1 \<and> faq_is_active f = Some True"
proof -
  have "\<forall>f\<in>set (faqs t). \<not> active_faq (submitted_message form) f"
  proof
    fix f assume "f \<in> set (faqs t)"
    show "\<not> active_faq (submitted_message form) f"
    proof
      assume a: "active_faq (submitted_message form) f"
      then have "f \<in> set (filter (\<lambda>f. faq_question f = submitted_message form) (faqs t))"
        using \<open>f \<in> set (faqs t)\<close> by (simp add: active_faq_def)
      then have "f = f0" using only by simp
      then show False using a inactive by (simp add: active_faq_def)
    qed
  qed
  then have "find (active_faq (submitted_message form)) (faqs t) = None"
    by (simp add: find_None_conv)
  from submit_faqs_new [OF accepted ok this] show ?thesis
    by (simp add: only)
qed

lemma fst_submit_depends:
  "students t' = students t \<Longrightarrow> blocked_emails t' = blocked_emails t \<Longrightarrow>
     fst (submit_query e' now' sess form t') = fst (submit_query e now sess form t)"
  by (simp add: submit_query_def Let_def sender_check_def guest_check_def student_check_def
      split: option.splits)

lemma submit_keeps_senders:
  "students (committed (snd (submit_query e now sess form t))) = students t \<and>
   blocked_emails (committed (snd (submit_query e now sess form t))) = blocked_emails t"
  by (simp add: submit_query_def Let_def begin_request_def insert_query_def faq_update_def
      faq_failed_def faq_commit_def commit_def rollback_def emit_def split: option.splits)

lemma submit_again:
  "fst (submit_query e' now' sess form (committed (snd (submit_query e1 now1 sess1 form1 t)))) =
   fst (submit_query e now sess form t)"
  by (rule fst_submit_depends) (simp_all add: submit_keeps_senders)

lemma library_message: "submitted_message library_form = ''What time does the library open?''"
  by (simp add: submitted_message_def library_form_def strip_def isspace_def)

lemma room_message: "submitted_message student_form = ''Where is room 12?''"
  by (simp add: submitted_message_def student_form_def strip_def isspace_def)

lemma library_accepted:
  "fst (submit_query e now anonymous library_form sample_tables) = Submitted"
  by (simp add: submit_query_def Let_def library_form_def anonymous_def sender_check_def
      guest_check_def sample_tables_def)

lemma room_accepted:
  "fst (submit_query e now anonymous student_form sample_tables) = Submitted"
  by (simp add: submit_query_def Let_def student_form_def anonymous_def sender_check_def
      guest_check_def sample_tables_def)

lemma sample_env_ok: "faq_fault sample_env = FaqOk"
  by (simp add: sample_env_def)

text \<open>The theorem at the library question twice, and at two different questions.\<close>

theorem faq_aggregation_witness:
  "fst (submit_query sample_env 10 anonymous library_form sample_tables) = Submitted \<and>
   (\<exists>f. filter (\<lambda>f. faq_question f = ''What time does the library open?'')
           (faqs (committed (snd (submit_query sample_env 11 anonymous library_form
              (committed (snd (submit_query sample_env 10 anonymous library_form
                 sample_tables))))))) = [f] \<and>
        faq_frequency f = Some 2 \<and> faq_answer f = None) \<and>
   (\<exists>f1 f2.
      filter (\<lambda>f. faq_question f = ''What time does the library open?'')
        (faqs (committed (snd (submit_query sample_env 11 anonymous student_form
           (committed (snd (submit_query sample_env 10 anonymous library_form
              sample_tables))))))) = [f1] \<and>
      filter (\<lambda>f. faq_question f = ''Where is room 12?'')
        (faqs (committed (snd (submit_query sample_env 11 anonymous student_form
           (committed (snd (submit_query sample_env 10 anonymous library_form
              sample_tables))))))) = [f2] \<and>
      faq_frequency f1 = Some 1 \<and> faq_frequency f2 = Some 1)"
proof -
  have fresh: "\<forall>f\<in>set (faqs sample_tables).
      faq_question f \<noteq> submitted_message library_form \<and>
      faq_question f \<noteq> submitted_message library_form"
    "\<forall>f\<in>set (faqs sample_tables).
      faq_question f \<noteq> submitted_message library_form \<and>
      faq_question f \<noteq> submitted_message student_form"
    by (simp_all add: sample_tables_def)
  have second: "fst (submit_query sample_env 11 anonymous library_form
      (committed (snd (submit_query sample_env 10 anonymous library_form sample_tables)))) =
      Submitted"
    "fst (submit_query sample_env 11 anonymous student_form
      (committed (snd (submit_query sample_env 10 anonymous library_form sample_tables)))) =
      Submitted"
    by (rule trans [OF submit_again library_accepted], rule trans [OF submit_again room_accepted])
  have neq: "submitted_message library_form \<noteq> submitted_message student_form"
    by (simp add: library_message room_message)
  show ?thesis
    using faq_aggregation [OF library_accepted second(1) sample_env_ok sample_env_ok fresh(1)]
      faq_aggregation [OF library_accepted second(2) sample_env_ok sample_env_ok fresh(2)] neq
    by (simp add: library_accepted library_message room_message) blast
qed

lemma toggled_tables_eq:
  "toggled_tables = sample_tables\<lparr>faqs := [library_faq\<lparr>faq_is_active := Some False\<rparr>]\<rparr>"
  by (simp add: toggled_tables_def toggle_faq_def library_faq_def commit_def begin_request_def
      sample_tables_def)

lemma library_accepted_toggled:
  "fst (submit_query e now anonymous library_form toggled_tables) = Submitted"
  by (rule trans [OF fst_submit_depends library_accepted])
     (simp_all add: toggled_tables_eq)

text \<open>The theorem at the library question after \<open>toggle_faq\<close> has deactivated its row.\<close>

theorem inactive_faq_not_matched_witness:
  "fst (submit_query sample_env 10 anonymous library_form toggled_tables) = Submitted \<and>
   filter (\<lambda>f. faq_question f = submitted_message library_form) (faqs toggled_tables) =
     [library_faq\<lparr>faq_is_active := Some False\<rparr>] \<and>
   (\<exists>f. filter (\<lambda>f. faq_question f = ''What time does the library open?'')
           (faqs (committed (snd (submit_query sample_env 10 anonymous library_form
              toggled_tables)))) = [library_faq\<lparr>faq_is_active := Some False\<rparr>, f] \<and>
        faq_frequency f = Some 1 \<and> faq_is_active f = Some True)"
proof -
  have only: "filter (\<lambda>f. faq_question f = submitted_message library_form) (faqs toggled_tables) =
     [library_faq\<lparr>faq_is_active := Some False\<rparr>]"
    by (simp add: toggled_tables_eq library_message library_faq_def)
  have inactive: "faq_is_active (library_faq\<lparr>faq_is_active := Some False\<rparr>) \<noteq> Some True"
    by simp
  show ?thesis
    using inactive_faq_not_matched [OF library_accepted_toggled sample_env_ok only inactive, of 10]
      only
    by (simp add: library_accepted_toggled library_message) blast
qed

text \<open>
  C8: in every environment, an accepted submission first commits the tables with the new
  query row; every event of the FAQ block comes after that commit, the stored queries are
  the old ones and the new row whatever the FAQ block does, and when the FAQ block fails
  the stored tables are exactly those of that first commit. Likewise \<open>update_status\<close> on
  an existing query first commits the new status and responses; the mail and every other
  event come after, the stored row keeps that status and those responses in every
  environment, and for a guest's query the stored tables are exactly those of that first
  commit, whether the mail is sent, fails or is not attempted.
\<close>

theorem primary_write_first:
  "(fst (submit_query e now sess form t) = Submitted \<longrightarrow>
      (\<exists>rest. trace (snd (submit_query e now sess form t)) =
                 Commit (with_query now sess form t) # rest) \<and>
      queries (committed (snd (submit_query e now sess form t))) =
        queries t @ [submitted_row now sess form t] \<and>
      (faq_fault e \<noteq> FaqOk \<longrightarrow>
         committed (snd (submit_query e now sess form t)) = with_query now sess form t)) \<and>
   (\<forall>q0. find (\<lambda>q. q_id q = k) (queries t) = Some q0 \<longrightarrow>
      (\<exists>rest. trace (snd (update_status e now (Some k) status response_text t)) =
                 Commit (t\<lparr>queries := update_first (\<lambda>q. q_id q = k)
                           (set_response status response_text) (queries t)\<rparr>) # rest) \<and>
      (\<exists>q. stored_query k (snd (update_status e now (Some k) status response_text t)) = Some q \<and>
           q_status q = q_status (set_response status response_text q0) \<and>
           q_response q = q_response (set_response status response_text q0) \<and>
           q_admin_response q = q_admin_response (set_response status response_text q0)) \<and>
      (q_student_id q0 = None \<longrightarrow>
         committed (snd (update_status e now (Some k) status response_text t)) =
           t\<lparr>queries := update_first (\<lambda>q. q_id q = k)
                (set_response status response_text) (queries t)\<rparr>))"
proof (intro conjI impI allI)
  assume a: "fst (submit_query e now sess form t) = Submitted"
  show "\<exists>rest. trace (snd (submit_query e now sess form t)) =
                 Commit (with_query now sess form t) # rest"
    by (rule submit_trace_head [OF a])
  show "queries (committed (snd (submit_query e now sess form t))) =
        queries t @ [submitted_row now sess form t]"
    by (rule submit_queries [OF a])
  assume "faq_fault e \<noteq> FaqOk"
  then show "committed (snd (submit_query e now sess form t)) = with_query now sess form t"
    by (rule submit_faq_fault [OF a])
next
  fix q0 assume f: "find (\<lambda>q. q_id q = k) (queries t) = Some q0"
  show "\<exists>rest. trace (snd (update_status e now (Some k) status response_text t)) =
                 Commit (t\<lparr>queries := update_first (\<lambda>q. q_id q = k)
                           (set_response status response_text) (queries t)\<rparr>) # rest"
    using f
    by (simp add: update_status_def Let_def notify_def commit_def change_query_def
        begin_request_def emit_def split: option.splits)
  show "\<exists>q. stored_query k (snd (update_status e now (Some k) status response_text t)) = Some q \<and>
           q_status q = q_status (set_response status response_text q0) \<and>
           q_response q = q_response (set_response status response_text q0) \<and>
           q_admin_response q = q_admin_response (set_response status response_text q0)"
    unfolding stored_query_update_status [OF f]
    by (simp add: stored_row_def set_reply_def split: option.splits)
  assume g: "q_student_id q0 = None"
  have "update_first (\<lambda>q. q_id q = k) (stored_row now status response_text) (queries t) =
        update_first (\<lambda>q. q_id q = k) (set_response status response_text) (queries t)"
    using f g by (intro update_first_cong_found) (auto simp: stored_row_def)
  then show "committed (snd (update_status e now (Some k) status response_text t)) =
           t\<lparr>queries := update_first (\<lambda>q. q_id q = k)
                (set_response status response_text) (queries t)\<rparr>"
    by (simp add: committed_update_status [OF f])
qed

text \<open>The theorem where the FAQ commit and the mail both fail.\<close>

theorem primary_write_first_witness:
  "fst (submit_query failing_env 10 anonymous library_form sample_tables) = Submitted \<and>
   faq_fault failing_env \<noteq> FaqOk \<and>
   committed (snd (submit_query failing_env 10 anonymous library_form sample_tables)) =
     with_query 10 anonymous library_form sample_tables \<and>
   find (\<lambda>q. q_id q = 1) (queries sample_tables) = Some guest_row \<and>
   q_student_id guest_row = None \<and>
   mail_raises failing_env \<and>
   map_option q_status (stored_query 1 (snd (update_status failing_env 10 (Some 1)
      (Some ''Resolved'') (Some ''At 9'') sample_tables))) = Some (Some ''Resolved'')"
proof -
  have "q_status (set_response (Some ''Resolved'') (Some ''At 9'') guest_row) = Some ''Resolved''"
    by (simp add: set_response_def)
  then show ?thesis
    using primary_write_first [of failing_env 10 anonymous library_form sample_tables 1
        "Some ''Resolved''" "Some ''At 9''"] library_accepted [of failing_env 10] find_sample_guest
    by (auto simp: failing_env_def guest_row_def)
qed

section \<open>The student's dashboard\<close>

lemma status_only_tables_eq:
  "status_only_tables =
     sample_tables\<lparr>queries := [guest_row,
       student_row\<lparr>q_status := Some ''In Progress'', q_admin_reply_text := Some [],
         q_admin_reply_at := Some 5, q_admin_reply_seen := Some False\<rparr>]\<rparr>"
  unfolding status_only_tables_def committed_update_status [OF find_sample_student]
  by (simp add: sample_tables_def guest_row_def student_row_def stored_row_def set_response_def
      set_reply_def strip_def)

text \<open>
  C9, as the code has it: one fetch of the dashboard by a logged-in student sets
  \<open>admin_reply_seen\<close> to true on each of that student's queries whose \<open>admin_reply_text\<close> is a
  non-empty string and whose \<open>admin_reply_seen\<close> is not true; it changes no other field of
  those rows, no other row and no other table.
\<close>

theorem dashboard_marks_seen:
  assumes "student_logged_in sess" and "sess_student_id sess = Some sid"
  shows "committed (snd (student_dashboard sess t)) =
         t\<lparr>queries :=
             map (\<lambda>q. if q_student_id q = Some sid \<and> truthy (q_admin_reply_text q) \<and>
                          q_admin_reply_seen q \<noteq> Some True
                       then q\<lparr>q_admin_reply_seen := Some True\<rparr> else q) (queries t)\<rparr>"
proof -
  have "mark_seen q = (if truthy (q_admin_reply_text q) \<and> q_admin_reply_seen q \<noteq> Some True
                       then q\<lparr>q_admin_reply_seen := Some True\<rparr> else q)" for q
    by (cases "q_admin_reply_seen q") (auto simp: mark_seen_def)
  then have "map (\<lambda>q. if q_student_id q = Some sid then mark_seen q else q) (queries t) =
        map (\<lambda>q. if q_student_id q = Some sid \<and> truthy (q_admin_reply_text q) \<and>
                          q_admin_reply_seen q \<noteq> Some True
                       then q\<lparr>q_admin_reply_seen := Some True\<rparr> else q) (queries t)"
    by (intro map_cong) auto
  then show ?thesis
    using assms by (simp add: student_dashboard_def commit_def begin_request_def)
qed

text \<open>The theorem at the student's query of the sample, once answered.\<close>

theorem dashboard_marks_seen_witness:
  "student_logged_in student_session \<and> sess_student_id student_session = Some 7 \<and>
   map_option q_admin_reply_seen (stored_query 2 (begin_request replied_tables)) =
     Some (Some False) \<and>
   stored_query 2 (snd (student_dashboard student_session replied_tables)) =
     Some (student_row\<lparr>q_status := Some ''Responded'', q_response := Some ''Room 12'',
         q_admin_response := Some ''Room 12'', q_admin_reply_text := Some ''Room 12'',
         q_admin_reply_at := Some 5, q_admin_reply_seen := Some True\<rparr>)"
proof -
  have a: "student_logged_in student_session" "sess_student_id student_session = Some 7"
    by (simp_all add: student_session_def)
  show ?thesis
    using dashboard_marks_seen [OF a, of replied_tables] a
    by (simp add: stored_query_def replied_tables_eq begin_request_def sample_tables_def
        guest_row_def student_row_def)
qed

text \<open>
  C9 as stated fails when the reply text is set to the empty string. \<open>update_status\<close> with a
  status and no response stores the empty reply text and \<open>admin_reply_seen = False\<close> on the
  student's query of the sample; after a fetch of the dashboard by that student the flag
  is still false.
\<close>

theorem empty_reply_never_seen_counterexample:
  "map_option q_student_id (stored_query 2 (begin_request status_only_tables)) = Some (Some 7) \<and>
   map_option q_admin_reply_text (stored_query 2 (begin_request status_only_tables)) =
     Some (Some []) \<and>
   map_option q_admin_reply_seen (stored_query 2 (begin_request status_only_tables)) =
     Some (Some False) \<and>
   map_option q_admin_reply_seen
     (stored_query 2 (snd (student_dashboard student_session status_only_tables))) =
     Some (Some False)"
  by (simp add: stored_query_def status_only_tables_eq begin_request_def sample_tables_def
      guest_row_def student_row_def student_dashboard_def student_session_def commit_def
      mark_seen_def)

section \<open>Schema reconciliation\<close>

lemma has_column_snoc:
  "has_column (cols @ [c]) c' = (has_column cols c' \<or> sql_fold c' = sql_fold c)"
  by (auto simp: has_column_def)

lemma has_column_exact: "c \<in> set cols \<Longrightarrow> has_column cols c"
  by (auto simp: has_column_def)


lemma exec_add_columns:
  assumes "s t = Some cur" and "distinct (map sql_fold cs)"
      and "\<forall>c\<in>set cs. has_column cur c = has_column cols c"
  shows "exec_block f (concat (map (add_missing t cols) cs) @ rest) s =
         (let miss = filter (\<lambda>c. c \<notin> set cols) cs;
              added = takeWhile (addable f t cols) miss
          in if added = miss then exec_block f rest (s(t \<mapsto> cur @ added))
             else (s(t \<mapsto> cur @ added), True))"
  using assms
proof (induction cs arbitrary: s cur)
  case Nil
  then have "s(t \<mapsto> cur) = s" by (simp add: map_upd_triv)
  then show ?case by simp
next
  case (Cons c cs)
  have d: "distinct (map sql_fold cs)" using Cons.prems by simp
  show ?case
  proof (cases "c \<in> set cols")
    case True
    have keep: "\<forall>c\<in>set cs. has_column cur c = has_column cols c"
      using Cons.prems by simp
    have "exec_block f (concat (map (add_missing t cols) cs) @ rest) s =
         (let miss = filter (\<lambda>c. c \<notin> set cols) cs;
              added = takeWhile (addable f t cols) miss
          in if added = miss then exec_block f rest (s(t \<mapsto> cur @ added))
             else (s(t \<mapsto> cur @ added), True))"
      by (rule Cons.IH [of s cur], fact Cons.prems(1), fact d, fact keep)
    moreover have "concat (map (add_missing t cols) (c # cs)) =
                   concat (map (add_missing t cols) cs)"
      and "filter (\<lambda>c. c \<notin> set cols) (c # cs) = filter (\<lambda>c. c \<notin> set cols) cs"
      using True by (simp_all add: add_missing_def)
    ultimately show ?thesis by (simp only:)
  next
    case False
    have same: "has_column cur c = has_column cols c" using Cons.prems by simp
    show ?thesis
    proof (cases "addable f t cols c")
      case no: False
      have triv: "s(t \<mapsto> cur) = s" using Cons.prems by (simp add: map_upd_triv)
      have "exec_stmt f (AddColumn t c) s = None"
        using no same Cons.prems(1) by (auto simp: exec_stmt_def addable_def)
      then show ?thesis
        using no False triv by (simp add: add_missing_def)
    next
      case ok: True
      let ?s1 = "s(t \<mapsto> cur @ [c])"
      have step: "exec_stmt f (AddColumn t c) s = Some ?s1"
        using ok same Cons.prems(1) by (simp add: exec_stmt_def addable_def)
      have s1: "?s1 t = Some (cur @ [c])" by simp
      have ne: "\<forall>c'\<in>set cs. sql_fold c' \<noteq> sql_fold c"
        using Cons.prems(2) by (auto simp: image_iff)
      have keep: "\<forall>c'\<in>set cs. has_column (cur @ [c]) c' = has_column cols c'"
        using Cons.prems(3) ne by (simp add: has_column_snoc)
      have ih: "exec_block f (concat (map (add_missing t cols) cs) @ rest) ?s1 =
         (let miss = filter (\<lambda>c. c \<notin> set cols) cs;
              added = takeWhile (addable f t cols) miss
          in if added = miss then exec_block f rest (?s1(t \<mapsto> (cur @ [c]) @ added))
             else (?s1(t \<mapsto> (cur @ [c]) @ added), True))"
        by (rule Cons.IH [of ?s1 "cur @ [c]"], fact s1, fact d, fact keep)
      have "exec_block f (concat (map (add_missing t cols) (c # cs)) @ rest) s =
            exec_block f (concat (map (add_missing t cols) cs) @ rest) ?s1"
        using step False by (simp add: add_missing_def)
      then show ?thesis
        unfolding ih using ok False by (auto simp: Let_def)
    qed
  qed
qed

lemma exec_on_missing_table:
  assumes "s t = None"
  shows "fst (exec_block f (concat (map (add_missing t cols) cs) @ rest) s) =
         (if concat (map (add_missing t cols) cs) = [] then fst (exec_block f rest s) else s)"
proof (induction cs)
  case Nil
  then show ?case by simp
next
  case (Cons c cs)
  then show ?case
    using assms by (auto simp: add_missing_def exec_stmt_def)
qed

lemma fst_exec_block_snoc_category:
  "fst (exec_block f (sts @ [SetCategoryOther]) s) = fst (exec_block f sts s)"
  by (induction sts arbitrary: s)
     (auto simp: exec_stmt_def split: option.splits)

lemma queries_block_list:
  "queries_block cols =
     concat (map (add_missing ''queries'' cols) queries_columns) @
     (if ''category'' \<notin> set cols then [SetCategoryOther] else [])"
  by (simp add: queries_block_def queries_columns_def add_missing_def)

lemma queries_block_adds:
  "fst (exec_block f (queries_block cols) s) =
   fst (exec_block f (concat (map (add_missing ''queries'' cols) queries_columns)) s)"
proof (cases "''category'' \<in> set cols")
  case True
  then show ?thesis by (simp add: queries_block_list)
next
  case False
  then have "queries_block cols =
      concat (map (add_missing ''queries'' cols) queries_columns) @ [SetCategoryOther]"
    by (simp add: queries_block_list)
  then show ?thesis
    by (simp only: fst_exec_block_snoc_category)
qed

lemma students_block_adds:
  "students_block cols = concat (map (add_missing ''students'' cols) students_columns)"
  by (simp add: students_block_def students_columns_def)

lemma admins_block_adds:
  "admins_block cols = concat (map (add_missing ''admins'' cols) admins_columns)"
  by (simp add: admins_block_def admins_columns_def)

lemma block_result:
  assumes "distinct (map sql_fold cs)"
  shows "fst (exec_block f (concat (map (add_missing t (table_info s t)) cs)) s) =
         s(t := map_option (columns_after f t cs) (s t))"
proof (cases "s t")
  case None
  then have "s(t := None) = s" by auto
  then show ?thesis
    using exec_on_missing_table [of s t f "table_info s t" cs "[]"] None by simp
next
  case (Some cols)
  have triv: "\<forall>c\<in>set cs. has_column cols c = has_column cols c" by simp
  have "exec_block f (concat (map (add_missing t cols) cs) @ []) s =
         (let miss = filter (\<lambda>c. c \<notin> set cols) cs;
              added = takeWhile (addable f t cols) miss
          in if added = miss then exec_block f [] (s(t \<mapsto> cols @ added))
             else (s(t \<mapsto> cols @ added), True))"
    by (rule exec_add_columns [of s t cols cs cols f "[]"], fact Some, fact assms, fact triv)
  then show ?thesis
    using Some by (auto simp: table_info_def columns_after_def Let_def)
qed


lemma fst_try_block: "fst (try_block f m sts sl) = fst (exec_block f sts (fst sl))"
  by (simp add: try_block_def split: prod.splits)


lemma create_tables_of_lookup:
  "create_tables_of ds s t = (case s t of Some cols \<Rightarrow> Some cols | None \<Rightarrow> map_of ds t)"
  by (induction ds arbitrary: s) (auto split: option.splits)

lemma create_all_lookup:
  "create_all s t = (case s t of Some cols \<Rightarrow> Some cols | None \<Rightarrow> map_of declared t)"
  by (simp add: create_all_def create_tables_of_lookup)


lemma fold_distinct_block_columns:
  "distinct (map sql_fold queries_columns)" "distinct (map sql_fold students_columns)"
  "distinct (map sql_fold admins_columns)"
  by code_simp+


lemma after_blocks_at:
  "after_blocks f s t =
     (if t = ''admins'' then map_option (columns_after f ''admins'' admins_columns) (s ''admins'')
      else if t = ''students''
        then map_option (columns_after f ''students'' students_columns) (s ''students'')
      else if t = ''queries''
        then map_option (columns_after f ''queries'' queries_columns) (s ''queries'')
      else s t)"
  by (simp add: after_blocks_def)

lemma migrate_schema:
  "fst (migrate_additive_schema f s) =
     (if f CreateAll then after_blocks f s else create_all (after_blocks f s))"
proof -
  let ?s1 = "s(''queries'' := map_option (columns_after f ''queries'' queries_columns) (s ''queries''))"
  let ?s2 = "?s1(''students'' :=
               map_option (columns_after f ''students'' students_columns) (s ''students''))"
  have b1: "fst (exec_block f (queries_block (table_info s ''queries'')) s) = ?s1"
    by (simp only: queries_block_adds block_result [OF fold_distinct_block_columns(1)])
  have b2: "fst (exec_block f (students_block (table_info ?s1 ''students'')) ?s1) = ?s2"
    by (simp only: students_block_adds block_result [OF fold_distinct_block_columns(2)]) simp
  have b3: "fst (exec_block f (admins_block (table_info ?s2 ''admins'')) ?s2) = after_blocks f s"
    by (simp only: admins_block_adds block_result [OF fold_distinct_block_columns(3)])
       (simp add: after_blocks_def)
  show ?thesis
    by (simp add: migrate_additive_schema_def Let_def fst_try_block b1 b2 b3 exec_stmt_def)
qed

lemma entity_blocks_cases:
  assumes "(t, cs, m) \<in> set entity_blocks"
  shows "(t = ''queries'' \<and> cs = queries_columns \<and> m = ''Migration error for queries columns'') \<or>
         (t = ''students'' \<and> cs = students_columns \<and>
            m = ''Migration error for students.is_blocked'') \<or>
         (t = ''admins'' \<and> cs = admins_columns \<and> m = ''Migration error for admins columns'')"
  using assms by (simp add: entity_blocks_def)

lemma migrate_table:
  assumes "(t, cs, m) \<in> set entity_blocks" and "s t = Some cols"
  shows "fst (migrate_additive_schema f s) t = Some (columns_after f t cs cols)"
proof -
  have "(t = ''queries'' \<and> cs = queries_columns) \<or> (t = ''students'' \<and> cs = students_columns) \<or>
        (t = ''admins'' \<and> cs = admins_columns)"
    using entity_blocks_cases [OF assms(1)] by blast
  then have "after_blocks f s t = Some (columns_after f t cs cols)"
    using assms(2) by (elim disjE conjE) (simp_all add: after_blocks_at)
  then show ?thesis
    by (simp add: migrate_schema create_all_lookup)
qed






















lemma in_entity_blocks:
  "(''queries'', queries_columns, ''Migration error for queries columns'') \<in> set entity_blocks"
  "(''students'', students_columns, ''Migration error for students.is_blocked'') \<in>
     set entity_blocks"
  "(''admins'', admins_columns, ''Migration error for admins columns'') \<in> set entity_blocks"
  by (simp_all add: entity_blocks_def)















lemma legacy_at:
  "legacy_schema ''queries'' =
     Some [''id'', ''name'', ''email'', ''message'', ''status'', ''response'', ''created_at'',
           ''student_id'']"
  "legacy_schema ''students'' = Some [''id'', ''student_id'', ''name'', ''email'', ''password'']"
  "legacy_schema ''admins'' = Some [''id'', ''username'', ''password_hash'']"
  by (simp_all add: legacy_schema_def)




lemma legacy_queries_fresh:
  "\<not> has_column [''id'', ''name'', ''email'', ''message'', ''status'', ''response'',
       ''created_at'', ''student_id''] ''admin_reply_text''"
  "\<not> has_column [''id'', ''name'', ''email'', ''message'', ''status'', ''response'',
       ''created_at'', ''student_id''] ''admin_reply_at''"
  "\<not> has_column [''id'', ''name'', ''email'', ''message'', ''status'', ''response'',
       ''created_at'', ''student_id''] ''admin_reply_seen''"
  "\<not> has_column [''id'', ''name'', ''email'', ''message'', ''status'', ''response'',
       ''created_at'', ''student_id''] ''category''"
  "\<not> has_column [''id'', ''student_id'', ''name'', ''email'', ''password''] ''is_blocked''"
  by code_simp+









lemma legacy_reply_at_queries:
  "fst (migrate_additive_schema locked_reply_at legacy_schema) ''queries'' =
     Some [''id'', ''name'', ''email'', ''message'', ''status'', ''response'', ''created_at'',
           ''student_id'', ''admin_reply_text'']"
  by (simp add: migrate_table [where s = legacy_schema and f = locked_reply_at,
        OF in_entity_blocks(1) legacy_at(1)] columns_after_def queries_columns_def addable_def
      locked_reply_at_def legacy_queries_fresh)


end
